theory Spec2Isabelle
  imports Main "HOL-Library.Sublist"
begin

section \<open>JavaScript strings and numbers used by the build script\<close>

text \<open>
  The script \<^verbatim>\<open>bin/build_wasm.ts\<close> only builds strings and hands them to the operating
  system. Strings are character lists; the numbers it prints are non-negative integers.
\<close>

definition is_space :: "char \<Rightarrow> bool" where
  \<comment> \<open>the white space that \<^verbatim>\<open>String.prototype.trim\<close> removes (code points below 256)\<close>
  "is_space c = (c \<in> set [CHR 0x09, CHR 0x0A, CHR 0x0B, CHR 0x0C, CHR 0x0D, CHR 0x20, CHR 0xA0])"

definition trim :: "string \<Rightarrow> string" where
  "trim s = rev (dropWhile is_space (rev (dropWhile is_space s)))"

fun join_with :: "string \<Rightarrow> string list \<Rightarrow> string" where
  \<comment> \<open>\<^verbatim>\<open>Array.prototype.join\<close>\<close>
  "join_with sep [] = []"
| "join_with sep [x] = x"
| "join_with sep (x # y # ys) = x @ sep @ join_with sep (y # ys)"

function show_nat :: "nat \<Rightarrow> string" where
  \<comment> \<open>a non-negative integer converted to a string, as \<^verbatim>\<open>'' + n\<close> does\<close>
  "show_nat n =
     (if n < 10 then [''0123456789'' ! n]
      else show_nat (n div 10) @ [''0123456789'' ! (n mod 10)])"
  by pat_completeness auto
termination
  by (relation "measure id") auto

declare show_nat.simps [simp del]

definition truthy :: "string option \<Rightarrow> bool" where
  \<comment> \<open>a \<^verbatim>\<open>string | undefined\<close> in a boolean position: undefined and the empty string are false\<close>
  "truthy v = (case v of None \<Rightarrow> False | Some s \<Rightarrow> s \<noteq> [])"

subsection \<open>Words of a command line\<close>

text \<open>
  The words of a command are its maximal runs of characters other than white space. The
  shell that \<^verbatim>\<open>execSync\<close> starts cuts a command into the same words as long as the
  command holds no quote, no backslash and no shell metacharacter; it also expands the
  \<^verbatim>\<open>*\<close> of a word, which is not modelled. Where a statement about the words of a
  command is meant as a statement about what the shell passes on, the strings that the
  script interpolates are required to be \<open>sh_plain\<close>, and the strings that must stay one
  word to be \<open>sh_word\<close>.
\<close>

primrec words_from :: "string \<Rightarrow> string \<Rightarrow> string list" where
  "words_from cur [] = (if cur = [] then [] else [cur])"
| "words_from cur (c # cs) =
     (if is_space c then (if cur = [] then [] else [cur]) @ words_from [] cs
      else words_from (cur @ [c]) cs)"

definition split_words :: "string \<Rightarrow> string list" where
  "split_words s = words_from [] s"

definition sh_literal :: "char \<Rightarrow> bool" where
  \<comment> \<open>characters that the shell hands on as they are, anywhere in a word\<close>
  "sh_literal c =
     (c \<in> set (''abcdefghijklmnopqrstuvwxyz'' @ ''ABCDEFGHIJKLMNOPQRSTUVWXYZ''
                @ ''0123456789'' @ ''-_./=,:+''))"

definition sh_plain :: "string \<Rightarrow> bool" where
  \<comment> \<open>literal characters and blanks only: the shell does nothing but cut at the blanks\<close>
  "sh_plain s = list_all (\<lambda>c. sh_literal c \<or> c = CHR '' '') s"


definition flag_values :: "string \<Rightarrow> string list \<Rightarrow> string list" where
  \<comment> \<open>the values of every word of the form \<^verbatim>\<open>name\<close>\<^verbatim>\<open>value\<close>, in order\<close>
  "flag_values name ws =
     map (drop (length name)) (filter (\<lambda>t. take (length name) t = name) ws)"

subsection \<open>\<^verbatim>\<open>JSON.stringify\<close> of an object of strings\<close>

definition hex_digit :: "nat \<Rightarrow> char" where
  "hex_digit n = ''0123456789abcdef'' ! (n mod 16)"

definition json_escape :: "char \<Rightarrow> string" where
  \<open>json_escape c =
     (if c = CHR 0x22 then [CHR 0x5C, CHR 0x22]
      else if c = CHR 0x5C then [CHR 0x5C, CHR 0x5C]
      else if c = CHR 0x08 then [CHR 0x5C, CHR ''b'']
      else if c = CHR 0x0C then [CHR 0x5C, CHR ''f'']
      else if c = CHR 0x0A then [CHR 0x5C, CHR ''n'']
      else if c = CHR 0x0D then [CHR 0x5C, CHR ''r'']
      else if c = CHR 0x09 then [CHR 0x5C, CHR ''t'']
      else if (of_char c :: nat) < 32
        then [CHR 0x5C, CHR ''u'', CHR ''0'', CHR ''0'',
              hex_digit (of_char c div 16), hex_digit (of_char c)]
      else [c])\<close>

definition json_quote :: "string \<Rightarrow> string" where
  "json_quote s = [CHR 0x22] @ concat (map json_escape s) @ [CHR 0x22]"

definition JSON_stringify_object :: "(string \<times> string) list \<Rightarrow> nat \<Rightarrow> string" where
  \<comment> \<open>\<^verbatim>\<open>JSON.stringify(obj, null, n)\<close> for an object whose properties are strings\<close>
  "JSON_stringify_object props n =
     (if props = [] then ''{}''
      else ''{'' @ [CHR 0x0A]
        @ join_with ('','' @ [CHR 0x0A])
            (map (\<lambda>(k, v). replicate n CHR '' '' @ json_quote k @ '': '' @ json_quote v) props)
        @ [CHR 0x0A] @ ''}'')"

section \<open>The build configuration\<close>

definition OPTIMIZATION_LEVEL :: nat where
  "OPTIMIZATION_LEVEL = 3"

definition WASM_MEMORY_SIZE :: nat where
  "WASM_MEMORY_SIZE = 16 * 1024 * 1024"

definition STACK_SIZE :: nat where
  "STACK_SIZE = 2 * 1024 * 1024"

definition GLOBAL_BASE :: nat where
  "GLOBAL_BASE = 4 * 1024 * 1024"

record BuildConfig =
  platform :: string
  wasmOut :: string
  wasmSrc :: string
  emflags :: string

subsection \<open>What the script reads from its surroundings\<close>

text \<open>
  A thrown JavaScript value, as far as the script can tell values apart: the \<^verbatim>\<open>catch\<close> of
  the setup mode looks for a \<^verbatim>\<open>code\<close> property and compares it with \<^verbatim>\<open>'EEXIST'\<close>;
  the error that \<^verbatim>\<open>execSync\<close> throws for a child that exits with a non-zero status
  carries that status and no \<^verbatim>\<open>code\<close>.
\<close>

datatype js_code = StrCode string | NonStrCode

datatype js_error =
    CodedError js_code
  | ExitStatusError nat
  | UncodedError

text \<open>
  The surroundings of one run: environment, arguments, the host, Node's \<^verbatim>\<open>path\<close> module
  (whose result depends on the host), and the outcome of every call that leaves the
  process. Each such call happens at most once per run with a given argument, so a
  function of the argument describes every possible behaviour.
\<close>

record world =
  env_WASM_PLATFORM :: "string option"
  argv2 :: "string option"
  dirname :: string
  process_platform :: string
  getuid :: nat
  getegid :: nat
  path_resolve :: "string \<Rightarrow> string \<Rightarrow> string"
  path_join :: "string list \<Rightarrow> string"
  exec_outcome :: "string \<Rightarrow> js_error + string"
  exists_outcome :: "string \<Rightarrow> bool"
  mkdir_outcome :: "string \<Rightarrow> js_error option"
  copy_outcome :: "string \<Rightarrow> string \<Rightarrow> js_error option"
  write_outcome :: "string \<Rightarrow> string \<Rightarrow> js_error option"

definition initial_config :: "world \<Rightarrow> BuildConfig" where
  \<comment> \<open>the object literal \<^verbatim>\<open>config\<close>\<close>
  "initial_config w =
     \<lparr> platform = (case env_WASM_PLATFORM w of None \<Rightarrow> [] | Some p \<Rightarrow> p),
       wasmOut = path_resolve w (dirname w) ''../build/wasm'',
       wasmSrc = path_resolve w (dirname w) ''../'',
       emflags = join_with '' ''
         [ ''-O3'',
           ''-fno-rtti'',
           ''-fno-exceptions'',
           ''-flto'',
           ''-ffast-math'',
           ''-fomit-frame-pointer'',
           ''-finline-functions'',
           ''-finline-hint-functions'',
           ''-fno-stack-protector'',
           ''-fforce-emit-vtables'',
           ''--param=max-inline-insns-single=1000'',
           ''--param=max-inline-insns-auto=1000'',
           ''--param=early-inlining-insns=1000'',
           ''--param=max-early-inliner-iterations=10'',
           ''-Wl,--no-entry'',
           ''-Wl,-O3'',
           ''-Wl,--lto-O3'',
           ''-Wl,-z,stack-size='' @ show_nat STACK_SIZE,
           ''-Wl,--initial-memory='' @ show_nat WASM_MEMORY_SIZE,
           ''-Wl,--max-memory='' @ show_nat WASM_MEMORY_SIZE ] \<rparr>"

section \<open>Effects: a trace of the calls that leave the process\<close>

record exec_options =
  cwd :: "string option"
  stdio_inherit :: bool
  env_extra :: "(string \<times> string) list"

datatype action =
    ExecSync string exec_options
  | ExistsSync string
  | MkdirSync string
  | CopyFileSync string string
  | WriteFileSync string string
  | ConsoleLog string

record state =
  config :: BuildConfig
  trace :: "action list"

text \<open>
  A statement either completes, throws, or ends the process with \<^verbatim>\<open>process.exit\<close>.
\<close>

datatype 'a completion = Normal 'a | Throw js_error | ProcessExit nat

type_synonym 'a prog = "state \<Rightarrow> 'a completion \<times> state"

definition and_then :: "'a prog \<Rightarrow> ('a \<Rightarrow> 'b prog) \<Rightarrow> 'b prog" where
  "and_then m f s =
     (case m s of
        (Normal a, s') \<Rightarrow> f a s'
      | (Throw e, s') \<Rightarrow> (Throw e, s')
      | (ProcessExit n, s') \<Rightarrow> (ProcessExit n, s'))"

definition try_catch :: "'a prog \<Rightarrow> (js_error \<Rightarrow> 'a prog) \<Rightarrow> 'a prog" where
  "try_catch m h s =
     (case m s of
        (Throw e, s') \<Rightarrow> h e s'
      | (Normal a, s') \<Rightarrow> (Normal a, s')
      | (ProcessExit n, s') \<Rightarrow> (ProcessExit n, s'))"

definition done_unit :: "unit prog" where
  "done_unit s = (Normal (), s)"

definition throw :: "js_error \<Rightarrow> 'a prog" where
  "throw e s = (Throw e, s)"

definition process_exit :: "nat \<Rightarrow> 'a prog" where
  "process_exit n s = (ProcessExit n, s)"

definition emit :: "action \<Rightarrow> state \<Rightarrow> state" where
  "emit a s = s\<lparr>trace := trace s @ [a]\<rparr>"

definition failing :: "js_error option \<Rightarrow> unit completion" where
  "failing r = (case r of None \<Rightarrow> Normal () | Some e \<Rightarrow> Throw e)"

definition execSync :: "world \<Rightarrow> string \<Rightarrow> exec_options \<Rightarrow> string prog" where
  \<comment> \<open>returns the child's standard output, throws when the child fails\<close>
  "execSync w cmd opts s =
     ((case exec_outcome w cmd of Inl e \<Rightarrow> Throw e | Inr out \<Rightarrow> Normal out),
      emit (ExecSync cmd opts) s)"

definition existsSync :: "world \<Rightarrow> string \<Rightarrow> bool prog" where
  "existsSync w p s = (Normal (exists_outcome w p), emit (ExistsSync p) s)"

definition mkdirSync :: "world \<Rightarrow> string \<Rightarrow> unit prog" where
  \<comment> \<open>always called with \<^verbatim>\<open>{ recursive: true }\<close>\<close>
  "mkdirSync w p s = (failing (mkdir_outcome w p), emit (MkdirSync p) s)"

definition copyFileSync :: "world \<Rightarrow> string \<Rightarrow> string \<Rightarrow> unit prog" where
  "copyFileSync w src dst s = (failing (copy_outcome w src dst), emit (CopyFileSync src dst) s)"

definition writeFileSync :: "world \<Rightarrow> string \<Rightarrow> string \<Rightarrow> unit prog" where
  "writeFileSync w p content s =
     (failing (write_outcome w p content), emit (WriteFileSync p content) s)"

definition console_log :: "string \<Rightarrow> unit prog" where
  "console_log msg s = (Normal (), emit (ConsoleLog msg) s)"

section \<open>The script\<close>

definition no_options :: exec_options where
  \<comment> \<open>\<^verbatim>\<open>execSync(cmd)\<close> without an options argument\<close>
  "no_options = \<lparr> cwd = None, stdio_inherit = False, env_extra = [] \<rparr>"

definition inherit_stdio :: exec_options where
  \<comment> \<open>\<^verbatim>\<open>{ stdio: 'inherit' }\<close>\<close>
  "inherit_stdio = \<lparr> cwd = None, stdio_inherit = True, env_extra = [] \<rparr>"

definition docker_info_cmd :: string where
  \<open>docker_info_cmd = ''docker info -f "{{.OSType}}/{{.Architecture}}"''\<close>

definition resolve_platform :: "world \<Rightarrow> unit prog" where
  \<comment> \<open>the statement \<^verbatim>\<open>if (!config.platform && process.argv[2]) { config.platform = ... }\<close>\<close>
  "resolve_platform w s =
     (if platform (config s) = [] \<and> truthy (argv2 w)
      then and_then (execSync w docker_info_cmd no_options)
             (\<lambda>out s'. (Normal (), s'\<lparr>config := (config s')\<lparr>platform := trim out\<rparr>\<rparr>)) s
      else done_unit s)"

definition ensureDirectoryExists :: "world \<Rightarrow> string \<Rightarrow> unit prog" where
  "ensureDirectoryExists w path =
     and_then (existsSync w path) (\<lambda>ex. if \<not> ex then mkdirSync w path else done_unit)"

definition dockerCmd :: "world \<Rightarrow> string \<Rightarrow> string \<Rightarrow> string" where
  "dockerCmd w plat src =
     (let uid = (if process_platform w = ''linux'' then getuid w else 1000);
          gid = (if process_platform w = ''linux'' then getegid w else 1000)
      in join_with '' ''
           [ ''docker run --rm'',
             ''--platform='' @ plat,
             ''--user '' @ show_nat uid @ '':'' @ show_nat gid,
             ''--mount'',
             ''type=bind,source='' @ src @ ''/build,target=/home/node/llhttp/build'',
             ''llhttp_wasm_builder npm run wasm'' ])"

definition runDockerBuild :: "world \<Rightarrow> string \<Rightarrow> string \<Rightarrow> unit prog" where
  "runDockerBuild w plat src =
     and_then
       (execSync w (dockerCmd w plat src)
          \<lparr> cwd = Some src, stdio_inherit = True, env_extra = [(''DOCKER_BUILDKIT'', ''1'')] \<rparr>)
       (\<lambda>_. done_unit)"

subsection \<open>The compiler command\<close>

text \<open>
  The command is a template literal. Every line of it but the first and the last is six
  blanks, the text, one blank and a line continuation (a backslash and the line break,
  which a template literal drops).
\<close>

definition clang_line :: "string \<Rightarrow> string" where
  "clang_line t = ''      '' @ t @ '' ''"

definition clang_target_flags :: "string list" where
  \<comment> \<open>the lines before \<^verbatim>\<open>${config.emflags}\<close>\<close>
  "clang_target_flags =
     [ ''--sysroot=/usr/share/wasi-sysroot'',
       ''-target wasm32-unknown-wasi'',
       ''-Ofast'',
       ''-fno-exceptions'',
       ''-fvisibility=hidden'',
       ''-mexec-model=reactor'',
       ''-msimd128'',
       ''-mbulk-memory'',
       ''-mmultivalue'',
       ''-mnontrapping-fptoint'',
       ''-msign-ext'',
       ''-mreference-types'',
       ''-mtail-call'' ]"

definition clang_link_flags :: "string list" where
  \<comment> \<open>the flags written out in the template after \<^verbatim>\<open>${config.emflags}\<close>\<close>
  "clang_link_flags =
     [ ''-Wl,-error-limit=0'',
       ''-Wl,-O'' @ show_nat OPTIMIZATION_LEVEL,
       ''-Wl,--lto-O'' @ show_nat OPTIMIZATION_LEVEL,
       ''-Wl,--allow-undefined'',
       ''-Wl,--export-dynamic'',
       ''-Wl,--export-table'',
       ''-Wl,--export=malloc'',
       ''-Wl,--export=free'',
       ''-Wl,--no-entry'',
       ''-Wl,--import-memory'',
       ''-Wl,--max-memory='' @ show_nat WASM_MEMORY_SIZE,
       ''-Wl,--global-base='' @ show_nat GLOBAL_BASE,
       ''-Wl,--stack-first'' ]"

definition clang_inputs :: "world \<Rightarrow> BuildConfig \<Rightarrow> string list" where
  "clang_inputs w cfg =
     [ path_join w [wasmSrc cfg, ''build'', ''c''] @ ''/*.c'',
       path_join w [wasmSrc cfg, ''src'', ''native''] @ ''/*.c'',
       ''-I'' @ path_join w [wasmSrc cfg, ''build''] ]"

definition clangCmd :: "world \<Rightarrow> BuildConfig \<Rightarrow> string" where
  "clangCmd w cfg =
     trim ([CHR 0x0A] @ ''    clang ''
       @ concat (map clang_line
           (clang_target_flags @ [emflags cfg] @ clang_link_flags @ clang_inputs w cfg))
       @ ''      -o '' @ path_join w [wasmOut cfg, ''llhttp.wasm'']
       @ [CHR 0x0A] @ ''  '')"

definition buildWasm :: "world \<Rightarrow> BuildConfig \<Rightarrow> unit prog" where
  "buildWasm w cfg = and_then (execSync w (clangCmd w cfg) inherit_stdio) (\<lambda>_. done_unit)"

subsection \<open>The companion files\<close>

definition copyAsset :: "world \<Rightarrow> BuildConfig \<Rightarrow> string \<Rightarrow> unit prog" where
  \<comment> \<open>one \<^verbatim>\<open>copyFileSync(join(config.wasmSrc, 'lib', 'llhttp', f), join(config.wasmOut, f))\<close>\<close>
  "copyAsset w cfg f =
     copyFileSync w (path_join w [wasmSrc cfg, ''lib'', ''llhttp'', f]) (path_join w [wasmOut cfg, f])"

definition packageJson :: string where
  "packageJson = JSON_stringify_object [(''type'', ''commonjs'')] 2"

definition copyAssets :: "world \<Rightarrow> BuildConfig \<Rightarrow> unit prog" where
  "copyAssets w cfg =
     and_then (copyAsset w cfg ''constants.js'') (\<lambda>_.
     and_then (copyAsset w cfg ''constants.js.map'') (\<lambda>_.
     and_then (copyAsset w cfg ''constants.d.ts'') (\<lambda>_.
     and_then (copyAsset w cfg ''utils.js'') (\<lambda>_.
     and_then (copyAsset w cfg ''utils.js.map'') (\<lambda>_.
     and_then (copyAsset w cfg ''utils.d.ts'') (\<lambda>_.
     writeFileSync w (path_join w [wasmOut cfg, ''package.json'']) packageJson))))))"

subsection \<open>The switch on the mode argument\<close>

definition isErrorWithCode :: "js_error \<Rightarrow> bool" where
  \<comment> \<open>a non-null object with a \<^verbatim>\<open>code\<close> property\<close>
  "isErrorWithCode e = (case e of CodedError _ \<Rightarrow> True | _ \<Rightarrow> False)"

definition code_is_not_EEXIST :: "js_error \<Rightarrow> bool" where
  \<comment> \<open>\<^verbatim>\<open>error.code !== 'EEXIST'\<close>, evaluated only where \<^verbatim>\<open>isErrorWithCode\<close> holds\<close>
  "code_is_not_EEXIST e = (case e of CodedError (StrCode c) \<Rightarrow> c \<noteq> ''EEXIST'' | _ \<Rightarrow> True)"

definition prebuildCmd :: "BuildConfig \<Rightarrow> string" where
  "prebuildCmd cfg = ''docker build --platform='' @ platform cfg @ '' -t llhttp_wasm_builder .''"

definition prebuild_mode :: "world \<Rightarrow> BuildConfig \<Rightarrow> unit prog" where
  "prebuild_mode w cfg =
     (let cmd = prebuildCmd cfg in
      and_then (console_log (''> '' @ cmd @ [CHR 0x0A])) (\<lambda>_.
      and_then (execSync w cmd inherit_stdio) (\<lambda>_.
      process_exit 0)))"

definition setup_mode :: "world \<Rightarrow> BuildConfig \<Rightarrow> unit prog" where
  "setup_mode w cfg =
     try_catch
       (and_then (ensureDirectoryExists w (path_join w [wasmSrc cfg, ''build''])) (\<lambda>_.
        process_exit 0))
       (\<lambda>error.
          if isErrorWithCode error \<and> code_is_not_EEXIST error then throw error
          else process_exit 0)"

definition docker_mode :: "world \<Rightarrow> BuildConfig \<Rightarrow> unit prog" where
  "docker_mode w cfg =
     and_then (runDockerBuild w (platform cfg) (wasmSrc cfg)) (\<lambda>_. process_exit 0)"

definition default_mode :: "world \<Rightarrow> BuildConfig \<Rightarrow> unit prog" where
  "default_mode w cfg =
     and_then (ensureDirectoryExists w (wasmOut cfg)) (\<lambda>_.
     and_then (execSync w ''npm run build'' \<lparr> cwd = Some (wasmSrc cfg), stdio_inherit = True, env_extra = [] \<rparr>) (\<lambda>_.
     and_then (buildWasm w cfg) (\<lambda>_.
     copyAssets w cfg)))"

definition dispatch :: "world \<Rightarrow> unit prog" where
  \<comment> \<open>\<^verbatim>\<open>switch (arg)\<close>, reading the global \<^verbatim>\<open>config\<close> as it is when the switch runs\<close>
  "dispatch w s =
     (let arg = argv2 w; cfg = config s in
      if arg = Some ''--prebuild'' then prebuild_mode w cfg s
      else if arg = Some ''--setup'' then setup_mode w cfg s
      else if arg = Some ''--docker'' then docker_mode w cfg s
      else default_mode w cfg s)"

definition main :: "world \<Rightarrow> unit completion \<times> state" where
  \<comment> \<open>the module body: build \<^verbatim>\<open>config\<close>, resolve the platform, switch\<close>
  "main w =
     and_then (resolve_platform w) (\<lambda>_. dispatch w)
       \<lparr> config = initial_config w, trace = [] \<rparr>"

definition exit_status :: "unit completion \<Rightarrow> nat" where
  \<comment> \<open>the status the Node process ends with: 0 after the module body completes, the
      argument of \<^verbatim>\<open>process.exit\<close>, and 1 for an exception nobody caught\<close>
  "exit_status r = (case r of Normal _ \<Rightarrow> 0 | ProcessExit n \<Rightarrow> n | Throw _ \<Rightarrow> 1)"

section \<open>Observations on a run\<close>

definition init_state :: "world \<Rightarrow> state" where
  "init_state w = \<lparr> config = initial_config w, trace = [] \<rparr>"

definition run_result :: "world \<Rightarrow> unit completion" where
  "run_result w = fst (main w)"

definition run_trace :: "world \<Rightarrow> action list" where
  "run_trace w = trace (snd (main w))"

definition final_config :: "world \<Rightarrow> BuildConfig" where
  "final_config w = config (snd (main w))"

definition resolved_config :: "world \<Rightarrow> BuildConfig" where
  \<comment> \<open>the configuration the switch sees\<close>
  "resolved_config w = config (snd (resolve_platform w (init_state w)))"

fun command_of :: "action \<Rightarrow> string list" where
  "command_of (ExecSync c opts) = [c]"
| "command_of a = []"

definition exec_commands :: "action list \<Rightarrow> string list" where
  "exec_commands tr = concat (map command_of tr)"

definition docker_info_invoked :: "world \<Rightarrow> bool" where
  "docker_info_invoked w = (docker_info_cmd \<in> set (exec_commands (run_trace w)))"

definition is_container_command :: "string \<Rightarrow> bool" where
  \<comment> \<open>a command whose program is the container runtime\<close>
  "is_container_command cmd = (case split_words cmd of [] \<Rightarrow> False | p # args \<Rightarrow> p = ''docker'')"

fun user_option :: "string list \<Rightarrow> string option" where
  \<comment> \<open>the word after the first \<^verbatim>\<open>--user\<close>\<close>
  "user_option (a # b # ws) = (if a = ''--user'' then Some b else user_option (b # ws))"
| "user_option ws = None"

definition posix_host :: "string \<Rightarrow> bool" where
  \<comment> \<open>of the values of \<^verbatim>\<open>process.platform\<close>, only \<^verbatim>\<open>win32\<close> names a host that is not POSIX\<close>
  "posix_host p = (p \<noteq> ''win32'')"

definition unrecognized :: "string \<Rightarrow> bool" where
  "unrecognized a = (a \<noteq> ''--prebuild'' \<and> a \<noteq> ''--setup'' \<and> a \<noteq> ''--docker'')"

definition companion_files :: "string list" where
  \<comment> \<open>each logical asset in its three forms\<close>
  "companion_files =
     concat (map (\<lambda>a. map (\<lambda>form. a @ form) [''.js'', ''.js.map'', ''.d.ts'']) [''constants'', ''utils''])"

definition copy_action :: "world \<Rightarrow> BuildConfig \<Rightarrow> string \<Rightarrow> action" where
  "copy_action w cfg f =
     CopyFileSync (path_join w [wasmSrc cfg, ''lib'', ''llhttp'', f]) (path_join w [wasmOut cfg, f])"

definition copy_failure :: "world \<Rightarrow> BuildConfig \<Rightarrow> string \<Rightarrow> js_error option" where
  "copy_failure w cfg f =
     copy_outcome w (path_join w [wasmSrc cfg, ''lib'', ''llhttp'', f]) (path_join w [wasmOut cfg, f])"

fun attempted :: "world \<Rightarrow> BuildConfig \<Rightarrow> string list \<Rightarrow> string list" where
  \<comment> \<open>the files whose copy is attempted, up to and including the first that fails\<close>
  "attempted w cfg [] = []"
| "attempted w cfg (f # fs) =
     (case copy_failure w cfg f of Some e \<Rightarrow> [f] | None \<Rightarrow> f # attempted w cfg fs)"

fun first_failure :: "world \<Rightarrow> BuildConfig \<Rightarrow> string list \<Rightarrow> js_error option" where
  "first_failure w cfg [] = None"
| "first_failure w cfg (f # fs) =
     (case copy_failure w cfg f of Some e \<Rightarrow> Some e | None \<Rightarrow> first_failure w cfg fs)"

fun copied_names :: "action list \<Rightarrow> string list" where
  \<comment> \<open>the file names (after the last slash) that a trace copies to\<close>
  "copied_names [] = []"
| "copied_names (CopyFileSync src dst # tr) =
     rev (takeWhile (\<lambda>c. c \<noteq> CHR ''/'') (rev dst)) # copied_names tr"
| "copied_names (a # tr) = copied_names tr"

definition logical_assets :: "string list \<Rightarrow> string list" where
  \<comment> \<open>the distinct names before the first dot\<close>
  "logical_assets names = remdups (map (takeWhile (\<lambda>c. c \<noteq> CHR ''.'')) names)"

section \<open>Example surroundings\<close>

text \<open>
  Node's POSIX \<^verbatim>\<open>path.join\<close> and \<^verbatim>\<open>path.resolve\<close>, for the example runs below.
\<close>

primrec split_at :: "char \<Rightarrow> string \<Rightarrow> string \<Rightarrow> string list" where
  "split_at sep cur [] = [cur]"
| "split_at sep cur (c # cs) =
     (if c = sep then cur # split_at sep [] cs else split_at sep (cur @ [c]) cs)"

primrec normalize_segments :: "bool \<Rightarrow> string list \<Rightarrow> string list \<Rightarrow> string list" where
  "normalize_segments up acc [] = acc"
| "normalize_segments up acc (x # xs) =
     (if x = [] \<or> x = ''.'' then normalize_segments up acc xs
      else if x = ''..'' then
        (if acc \<noteq> [] \<and> last acc \<noteq> ''..'' then normalize_segments up (butlast acc) xs
         else if up then normalize_segments up (acc @ [x]) xs
         else normalize_segments up acc xs)
      else normalize_segments up (acc @ [x]) xs)"

definition posix_normalize :: "string \<Rightarrow> string" where
  "posix_normalize p =
     (if p = [] then ''.''
      else
        (let absolute = (hd p = CHR ''/'');
             trailing = (last p = CHR ''/'');
             body = join_with ''/'' (normalize_segments (\<not> absolute) [] (split_at CHR ''/'' [] p))
         in if body = [] then (if absolute then ''/'' else if trailing then ''./'' else ''.'')
            else (if absolute then ''/'' else []) @ body @ (if trailing then ''/'' else [])))"

definition posix_join :: "string list \<Rightarrow> string" where
  "posix_join parts = posix_normalize (join_with ''/'' (filter (\<lambda>p. p \<noteq> []) parts))"

definition posix_resolve :: "string \<Rightarrow> string \<Rightarrow> string \<Rightarrow> string" where
  \<comment> \<open>\<^verbatim>\<open>path.resolve(a, b)\<close> in the working directory \<^verbatim>\<open>wd\<close> (an absolute path)\<close>
  "posix_resolve wd a b =
     (let full =
            (if b \<noteq> [] \<and> hd b = CHR ''/'' then b
             else if a \<noteq> [] \<and> hd a = CHR ''/'' then a @ ''/'' @ b
             else wd @ ''/'' @ a @ ''/'' @ b)
      in ''/'' @ join_with ''/'' (normalize_segments False [] (split_at CHR ''/'' [] full)))"

definition linux_world :: world where
  \<comment> \<open>a Linux host, a checkout in \<^verbatim>\<open>/repo\<close>, no override, no argument, every call succeeds\<close>
  "linux_world =
     \<lparr> env_WASM_PLATFORM = None,
       argv2 = None,
       dirname = ''/repo/bin'',
       process_platform = ''linux'',
       getuid = 1001,
       getegid = 1002,
       path_resolve = posix_resolve ''/repo'',
       path_join = posix_join,
       exec_outcome = (\<lambda>cmd. if cmd = docker_info_cmd then Inr (''linux/amd64'' @ [CHR 0x0A]) else Inr []),
       exists_outcome = (\<lambda>p. False),
       mkdir_outcome = (\<lambda>p. None),
       copy_outcome = (\<lambda>src dst. None),
       write_outcome = (\<lambda>p content. None) \<rparr>"

definition setup_eexist_world :: world where
  \<comment> \<open>setup mode; creating the directory fails with \<^verbatim>\<open>EEXIST\<close>\<close>
  "setup_eexist_world =
     linux_world\<lparr> env_WASM_PLATFORM := Some ''linux/amd64'', argv2 := Some ''--setup'',
       mkdir_outcome := (\<lambda>p. Some (CodedError (StrCode ''EEXIST''))) \<rparr>"

definition blank_checkout_world :: world where
  \<comment> \<open>a checkout in a directory whose name holds a blank\<close>
  "blank_checkout_world = linux_world\<lparr> dirname := ''/home/me/my repo/bin'' \<rparr>"

definition setup_denied_world :: world where
  \<comment> \<open>setup mode; creating the directory fails with \<^verbatim>\<open>EACCES\<close>\<close>
  "setup_denied_world =
     linux_world\<lparr> env_WASM_PLATFORM := Some ''linux/amd64'', argv2 := Some ''--setup'',
       mkdir_outcome := (\<lambda>p. Some (CodedError (StrCode ''EACCES''))) \<rparr>"

definition prebuild_world :: world where
  \<comment> \<open>image mode with the override set; \<^verbatim>\<open>docker build\<close> succeeds\<close>
  "prebuild_world =
     linux_world\<lparr> env_WASM_PLATFORM := Some ''linux/amd64'', argv2 := Some ''--prebuild'' \<rparr>"

definition unknown_mode_world :: world where
  "unknown_mode_world = linux_world\<lparr> argv2 := Some ''--local'' \<rparr>"

definition prebuild_failing_world :: world where
  \<comment> \<open>image mode; \<^verbatim>\<open>docker build\<close> exits with status 2\<close>
  "prebuild_failing_world =
     linux_world\<lparr> env_WASM_PLATFORM := Some ''linux/amd64'', argv2 := Some ''--prebuild'',
       exec_outcome := (\<lambda>cmd. Inl (ExitStatusError 2)) \<rparr>"

definition darwin_world :: world where
  \<comment> \<open>containerized mode on macOS, user 501, group 20\<close>
  "darwin_world =
     linux_world\<lparr> env_WASM_PLATFORM := Some ''linux/arm64'', argv2 := Some ''--docker'',
       process_platform := ''darwin'', getuid := 501, getegid := 20 \<rparr>"

definition empty_arg_world :: world where
  \<comment> \<open>an empty mode argument, no override\<close>
  "empty_arg_world = linux_world\<lparr> argv2 := Some [] \<rparr>"

definition empty_override_world :: world where
  \<comment> \<open>containerized mode with the override variable set to the empty string\<close>
  "empty_override_world = linux_world\<lparr> env_WASM_PLATFORM := Some [], argv2 := Some ''--docker'' \<rparr>"

definition docker_mode_world :: world where
  "docker_mode_world = linux_world\<lparr> argv2 := Some ''--docker'' \<rparr>"

definition override_world :: world where
  \<comment> \<open>no mode argument, the override set\<close>
  "override_world = linux_world\<lparr> env_WASM_PLATFORM := Some ''linux/amd64'' \<rparr>"

section \<open>Programs that only append to the trace\<close>

definition appends :: "'a prog \<Rightarrow> 'a completion \<Rightarrow> action list \<Rightarrow> bool" where
  \<comment> \<open>whatever the state, the program completes with \<open>r\<close> and appends \<open>tr\<close> to the trace\<close>
  "appends m r tr = (\<forall>s. m s = (r, s\<lparr>trace := trace s @ tr\<rparr>))"

definition logs_only :: "'a prog \<Rightarrow> string set \<Rightarrow> bool" where
  \<comment> \<open>it only appends to the trace, and the commands it runs are among \<open>C\<close>\<close>
  "logs_only m C = (\<exists>r tr. appends m r tr \<and> set (exec_commands tr) \<subseteq> C)"

section \<open>Words of the commands\<close>

lemma is_space_blank [simp]: "is_space CHR '' ''" "is_space CHR 0x0A"
  by (simp_all add: is_space_def)

lemma words_from_append_before_space:
  "b = [] \<or> is_space (hd b) \<Longrightarrow> words_from cur (a @ b) = words_from cur a @ split_words b"
  by (induction a arbitrary: cur) (cases b; auto simp: split_words_def)+

lemma words_from_append_after_space:
  "is_space c \<Longrightarrow> words_from cur (a @ c # b) = words_from cur a @ split_words b"
  by (induction a arbitrary: cur) (auto simp: split_words_def)

lemma words_from_snoc_space: "is_space c \<Longrightarrow> words_from cur (s @ [c]) = words_from cur s"
  by (induction s arbitrary: cur) auto

lemma words_from_nospace:
  "\<not> list_ex is_space x \<Longrightarrow> words_from cur (x @ rest) = words_from (cur @ x) rest"
  by (induction x arbitrary: cur) simp_all



lemma split_words_dropWhile: "split_words (dropWhile is_space s) = split_words s"
  by (induction s) (auto simp: split_words_def)

lemma words_from_trim_right:
  "words_from cur (rev (dropWhile is_space (rev s))) = words_from cur s"
  by (induction s rule: rev_induct) (simp_all add: words_from_snoc_space)

lemma split_words_trim: "split_words (trim s) = split_words s"
proof -
  have "split_words (trim s) = words_from [] (dropWhile is_space s)"
    unfolding trim_def split_words_def by (rule words_from_trim_right)
  also have "\<dots> = split_words s"
    using split_words_dropWhile [of s] by (simp only: split_words_def)
  finally show ?thesis .
qed

lemma split_words_word_then_space:
  "is_space c \<Longrightarrow> split_words (t @ c # rest) = split_words t @ split_words rest"
  using words_from_append_after_space [of c "[]" t rest] by (simp add: split_words_def)

lemma split_words_leading_space:
  "is_space c \<Longrightarrow> split_words (c # rest) = split_words rest"
  by (simp add: split_words_def)

lemma split_words_clang_line:
  "split_words (clang_line t @ rest) = split_words t @ split_words rest"
  by (simp add: clang_line_def split_words_leading_space split_words_word_then_space)

lemma split_words_clang_lines:
  "split_words (concat (map clang_line ls) @ rest) = concat (map split_words ls) @ split_words rest"
  by (induction ls) (simp_all add: split_words_clang_line)

lemma split_words_clangCmd:
  "split_words (clangCmd w cfg) =
     ''clang'' # concat (map split_words
        (clang_target_flags @ [emflags cfg] @ clang_link_flags @ clang_inputs w cfg))
     @ ''-o'' # split_words (path_join w [wasmOut cfg, ''llhttp.wasm''])"
proof -
  let ?p = "path_join w [wasmOut cfg, ''llhttp.wasm'']"
  have tail: "split_words (''      -o '' @ ?p @ [CHR 0x0A] @ ''  '') = ''-o'' # split_words ?p"
  proof -
    have "split_words (?p @ [CHR 0x0A] @ ''  '') = split_words ?p"
      using words_from_append_before_space [of "[CHR 0x0A] @ ''  ''" "[]" ?p]
      by (simp add: split_words_def)
    moreover have "split_words (''      -o '' @ ?p @ [CHR 0x0A] @ ''  '')
        = split_words (''-o'' @ CHR '' '' # (?p @ [CHR 0x0A] @ ''  ''))"
      by (simp add: split_words_leading_space)
    ultimately show ?thesis
      by (simp only: split_words_word_then_space [OF is_space_blank(1)])
        (simp add: split_words_def is_space_def)
  qed
  have head: "split_words ([CHR 0x0A] @ ''    clang '' @ rest) = ''clang'' # split_words rest" for rest
  proof -
    have "split_words ([CHR 0x0A] @ ''    clang '' @ rest) = split_words (''clang'' @ CHR '' '' # rest)"
      by (simp add: split_words_leading_space)
    then show ?thesis
      by (simp only: split_words_word_then_space [OF is_space_blank(1)])
        (simp add: split_words_def is_space_def)
  qed
  show ?thesis
    unfolding clangCmd_def split_words_trim
    by (simp only: head split_words_clang_lines tail append_assoc)
qed

section \<open>The memory layout in the flags\<close>

lemma show_nat_constants:
  "show_nat WASM_MEMORY_SIZE = ''16777216''"
  "show_nat STACK_SIZE = ''2097152''"
  "show_nat GLOBAL_BASE = ''4194304''"
  "show_nat OPTIMIZATION_LEVEL = ''3''"
  by (simp_all add: WASM_MEMORY_SIZE_def STACK_SIZE_def GLOBAL_BASE_def OPTIMIZATION_LEVEL_def
      show_nat.simps)

lemma emflags_words:
  "split_words (emflags (initial_config w)) =
     [ ''-O3'', ''-fno-rtti'', ''-fno-exceptions'', ''-flto'', ''-ffast-math'',
       ''-fomit-frame-pointer'', ''-finline-functions'', ''-finline-hint-functions'',
       ''-fno-stack-protector'', ''-fforce-emit-vtables'',
       ''--param=max-inline-insns-single=1000'', ''--param=max-inline-insns-auto=1000'',
       ''--param=early-inlining-insns=1000'', ''--param=max-early-inliner-iterations=10'',
       ''-Wl,--no-entry'', ''-Wl,-O3'', ''-Wl,--lto-O3'', ''-Wl,-z,stack-size=2097152'',
       ''-Wl,--initial-memory=16777216'', ''-Wl,--max-memory=16777216'' ]"
  by (simp add: initial_config_def show_nat_constants split_words_def is_space_def)

lemma clang_link_flags_words:
  "concat (map split_words clang_link_flags) =
     [ ''-Wl,-error-limit=0'', ''-Wl,-O3'', ''-Wl,--lto-O3'', ''-Wl,--allow-undefined'',
       ''-Wl,--export-dynamic'', ''-Wl,--export-table'', ''-Wl,--export=malloc'',
       ''-Wl,--export=free'', ''-Wl,--no-entry'', ''-Wl,--import-memory'',
       ''-Wl,--max-memory=16777216'', ''-Wl,--global-base=4194304'', ''-Wl,--stack-first'' ]"
  by (simp add: clang_link_flags_def show_nat_constants split_words_def is_space_def)


text \<open>
  Claim C1. The toolchain flag string of the configuration has exactly one initial-memory
  flag and exactly one max-memory flag, both with the value of the linear-memory constant
  (16 MiB), and exactly one stack-size flag with the value of the stack constant (2 MiB).
  The flags written out in the compiler command have exactly one max-memory flag, with the
  same 16 MiB value, and exactly one global-base flag, with the 4 MiB constant; the words
  of the command are the target flags, the toolchain flags, these flags, the inputs and
  the output, in this order. The values are the digits \<^verbatim>\<open>16777216\<close>, \<^verbatim>\<open>2097152\<close> and
  \<^verbatim>\<open>4194304\<close>.
\<close>

theorem toolchain_flags_memory_layout:
  "flag_values ''-Wl,--initial-memory='' (split_words (emflags (initial_config w)))
     = [show_nat WASM_MEMORY_SIZE]
   \<and> flag_values ''-Wl,--max-memory='' (split_words (emflags (initial_config w)))
     = [show_nat WASM_MEMORY_SIZE]
   \<and> flag_values ''-Wl,-z,stack-size='' (split_words (emflags (initial_config w)))
     = [show_nat STACK_SIZE]
   \<and> flag_values ''-Wl,--max-memory='' (concat (map split_words clang_link_flags))
     = [show_nat WASM_MEMORY_SIZE]
   \<and> flag_values ''-Wl,--global-base='' (concat (map split_words clang_link_flags))
     = [show_nat GLOBAL_BASE]
   \<and> split_words (clangCmd w (initial_config w))
     = ''clang'' # concat (map split_words clang_target_flags)
       @ split_words (emflags (initial_config w))
       @ concat (map split_words clang_link_flags)
       @ concat (map split_words (clang_inputs w (initial_config w)))
       @ ''-o'' # split_words (path_join w [wasmOut (initial_config w), ''llhttp.wasm''])
   \<and> WASM_MEMORY_SIZE = 16 * 2 ^ 20 \<and> STACK_SIZE = 2 * 2 ^ 20 \<and> GLOBAL_BASE = 4 * 2 ^ 20
   \<and> show_nat WASM_MEMORY_SIZE = ''16777216'' \<and> show_nat STACK_SIZE = ''2097152''
   \<and> show_nat GLOBAL_BASE = ''4194304''"
proof -
  have "flag_values ''-Wl,--initial-memory='' (split_words (emflags (initial_config w)))
     = [show_nat WASM_MEMORY_SIZE]"
    by (simp add: emflags_words show_nat_constants flag_values_def)
  moreover have "flag_values ''-Wl,--max-memory='' (split_words (emflags (initial_config w)))
     = [show_nat WASM_MEMORY_SIZE]"
    by (simp add: emflags_words show_nat_constants flag_values_def)
  moreover have "flag_values ''-Wl,-z,stack-size='' (split_words (emflags (initial_config w)))
     = [show_nat STACK_SIZE]"
    by (simp add: emflags_words show_nat_constants flag_values_def)
  moreover have "flag_values ''-Wl,--max-memory='' (concat (map split_words clang_link_flags))
     = [show_nat WASM_MEMORY_SIZE]"
    by (simp add: clang_link_flags_words show_nat_constants flag_values_def)
  moreover have "flag_values ''-Wl,--global-base='' (concat (map split_words clang_link_flags))
     = [show_nat GLOBAL_BASE]"
    by (simp add: clang_link_flags_words show_nat_constants flag_values_def)
  moreover have "split_words (clangCmd w (initial_config w))
     = ''clang'' # concat (map split_words clang_target_flags)
       @ split_words (emflags (initial_config w))
       @ concat (map split_words clang_link_flags)
       @ concat (map split_words (clang_inputs w (initial_config w)))
       @ ''-o'' # split_words (path_join w [wasmOut (initial_config w), ''llhttp.wasm''])"
    by (simp only: split_words_clangCmd map_append concat_append list.map concat.simps append_Nil2 append_assoc)
  moreover have "WASM_MEMORY_SIZE = 16 * 2 ^ 20 \<and> STACK_SIZE = 2 * 2 ^ 20 \<and> GLOBAL_BASE = 4 * 2 ^ 20"
    by (simp add: WASM_MEMORY_SIZE_def STACK_SIZE_def GLOBAL_BASE_def)
  moreover have "show_nat WASM_MEMORY_SIZE = ''16777216'' \<and> show_nat STACK_SIZE = ''2097152''
      \<and> show_nat GLOBAL_BASE = ''4194304''"
    by (simp add: show_nat_constants)
  ultimately show ?thesis by blast
qed

section \<open>The compiler command\<close>



section \<open>Runs of the script\<close>

subsection \<open>Every statement of the script only appends to the trace\<close>

text \<open>
  No call of the script reads the trace or the configuration of the state it runs in; its
  completion and the actions it adds depend on the surroundings alone.
\<close>

lemma appends_execSync:
  "appends (execSync w cmd opts)
     (case exec_outcome w cmd of Inl e \<Rightarrow> Throw e | Inr out \<Rightarrow> Normal out) [ExecSync cmd opts]"
  by (simp add: appends_def execSync_def emit_def)

lemma appends_existsSync: "appends (existsSync w p) (Normal (exists_outcome w p)) [ExistsSync p]"
  by (simp add: appends_def existsSync_def emit_def)

lemma appends_mkdirSync: "appends (mkdirSync w p) (failing (mkdir_outcome w p)) [MkdirSync p]"
  by (simp add: appends_def mkdirSync_def emit_def)

lemma appends_copyFileSync:
  "appends (copyFileSync w a b) (failing (copy_outcome w a b)) [CopyFileSync a b]"
  by (simp add: appends_def copyFileSync_def emit_def)

lemma appends_writeFileSync:
  "appends (writeFileSync w p c) (failing (write_outcome w p c)) [WriteFileSync p c]"
  by (simp add: appends_def writeFileSync_def emit_def)

lemma appends_console_log: "appends (console_log msg) (Normal ()) [ConsoleLog msg]"
  by (simp add: appends_def console_log_def emit_def)

lemma appends_done_unit: "appends done_unit (Normal ()) []"
  by (simp add: appends_def done_unit_def)

lemma appends_process_exit: "appends (process_exit n) (ProcessExit n) []"
  by (simp add: appends_def process_exit_def)

lemma appends_throw: "appends (throw e) (Throw e) []"
  by (simp add: appends_def throw_def)

lemma appends_and_then_normal:
  "appends m (Normal a) tr \<Longrightarrow> appends (f a) r' tr' \<Longrightarrow> appends (and_then m f) r' (tr @ tr')"
  by (simp add: appends_def and_then_def)

lemma appends_and_then_throw:
  "appends m (Throw e) tr \<Longrightarrow> appends (and_then m f) (Throw e) tr"
  by (simp add: appends_def and_then_def)

lemma appends_and_then_exit:
  "appends m (ProcessExit n) tr \<Longrightarrow> appends (and_then m f) (ProcessExit n) tr"
  by (simp add: appends_def and_then_def)

lemma appends_try_catch_throw:
  "appends m (Throw e) tr \<Longrightarrow> appends (h e) r' tr' \<Longrightarrow> appends (try_catch m h) r' (tr @ tr')"
  by (simp add: appends_def try_catch_def)

lemma appends_try_catch_normal:
  "appends m (Normal a) tr \<Longrightarrow> appends (try_catch m h) (Normal a) tr"
  by (simp add: appends_def try_catch_def)

lemma appends_try_catch_exit:
  "appends m (ProcessExit n) tr \<Longrightarrow> appends (try_catch m h) (ProcessExit n) tr"
  by (simp add: appends_def try_catch_def)

lemma logs_onlyI: "appends m r tr \<Longrightarrow> set (exec_commands tr) \<subseteq> C \<Longrightarrow> logs_only m C"
  by (auto simp: logs_only_def)

lemma logs_only_mono: "logs_only m C \<Longrightarrow> C \<subseteq> D \<Longrightarrow> logs_only m D"
  by (auto simp: logs_only_def)

lemma exec_commands_append [simp]: "exec_commands (a @ b) = exec_commands a @ exec_commands b"
  by (simp add: exec_commands_def)

lemma exec_commands_simps [simp]:
  "exec_commands [] = []"
  "exec_commands (ExecSync c opts # tr) = c # exec_commands tr"
  "exec_commands (ExistsSync p # tr) = exec_commands tr"
  "exec_commands (MkdirSync p # tr) = exec_commands tr"
  "exec_commands (CopyFileSync a b # tr) = exec_commands tr"
  "exec_commands (WriteFileSync p c # tr) = exec_commands tr"
  "exec_commands (ConsoleLog msg # tr) = exec_commands tr"
  by (simp_all add: exec_commands_def)

lemma logs_only_and_then:
  assumes "logs_only m C" and "\<And>a. logs_only (f a) C"
  shows "logs_only (and_then m f) C"
proof -
  obtain r tr where m: "appends m r tr" "set (exec_commands tr) \<subseteq> C"
    using assms(1) by (auto simp: logs_only_def)
  show ?thesis
  proof (cases r)
    case (Normal a)
    obtain r' tr' where f: "appends (f a) r' tr'" "set (exec_commands tr') \<subseteq> C"
      using assms(2) [of a] by (auto simp: logs_only_def)
    have "appends (and_then m f) r' (tr @ tr')"
      using m(1) f(1) unfolding Normal by (rule appends_and_then_normal)
    moreover have "set (exec_commands (tr @ tr')) \<subseteq> C"
      using m(2) f(2) by simp
    ultimately show ?thesis by (rule logs_onlyI)
  next
    case (Throw e)
    then have "appends (and_then m f) (Throw e) tr"
      using m(1) by (simp add: appends_and_then_throw)
    then show ?thesis using m(2) by (rule logs_onlyI)
  next
    case (ProcessExit n)
    then have "appends (and_then m f) (ProcessExit n) tr"
      using m(1) by (simp add: appends_and_then_exit)
    then show ?thesis using m(2) by (rule logs_onlyI)
  qed
qed

lemma logs_only_try_catch:
  assumes "logs_only m C" and "\<And>e. logs_only (h e) C"
  shows "logs_only (try_catch m h) C"
proof -
  obtain r tr where m: "appends m r tr" "set (exec_commands tr) \<subseteq> C"
    using assms(1) by (auto simp: logs_only_def)
  show ?thesis
  proof (cases r)
    case (Throw e)
    obtain r' tr' where h: "appends (h e) r' tr'" "set (exec_commands tr') \<subseteq> C"
      using assms(2) [of e] by (auto simp: logs_only_def)
    have "appends (try_catch m h) r' (tr @ tr')"
      using m(1) h(1) unfolding Throw by (rule appends_try_catch_throw)
    moreover have "set (exec_commands (tr @ tr')) \<subseteq> C"
      using m(2) h(2) by simp
    ultimately show ?thesis by (rule logs_onlyI)
  next
    case (Normal a)
    then have "appends (try_catch m h) (Normal a) tr"
      using m(1) by (simp add: appends_try_catch_normal)
    then show ?thesis using m(2) by (rule logs_onlyI)
  next
    case (ProcessExit n)
    then have "appends (try_catch m h) (ProcessExit n) tr"
      using m(1) by (simp add: appends_try_catch_exit)
    then show ?thesis using m(2) by (rule logs_onlyI)
  qed
qed

lemma logs_only_prims:
  "cmd \<in> C \<Longrightarrow> logs_only (execSync w cmd opts) C"
  "logs_only (existsSync w p) C"
  "logs_only (mkdirSync w p) C"
  "logs_only (copyFileSync w a b) C"
  "logs_only (writeFileSync w p c) C"
  "logs_only (console_log msg) C"
  "logs_only done_unit C"
  "logs_only (process_exit n) C"
  "logs_only (throw e) C"
  by (rule logs_onlyI, rule appends_execSync appends_existsSync appends_mkdirSync
      appends_copyFileSync appends_writeFileSync appends_console_log appends_done_unit
      appends_process_exit appends_throw, simp)+

lemma logs_only_if:
  "logs_only a C \<Longrightarrow> logs_only b C \<Longrightarrow> logs_only (if c then a else b) C"
  by simp

lemmas logs_only_intros =
  logs_only_and_then logs_only_try_catch logs_only_if logs_only_prims

lemma logs_only_ensureDirectoryExists: "logs_only (ensureDirectoryExists w p) C"
  unfolding ensureDirectoryExists_def by (intro logs_only_intros)

lemma logs_only_copyAssets: "logs_only (copyAssets w cfg) C"
  unfolding copyAssets_def copyAsset_def by (intro logs_only_intros)

lemma logs_only_buildWasm: "logs_only (buildWasm w cfg) {clangCmd w cfg}"
  unfolding buildWasm_def by (intro logs_only_intros) simp

lemma logs_only_default_mode:
  "logs_only (default_mode w cfg) {''npm run build'', clangCmd w cfg}"
  unfolding default_mode_def
  by (intro logs_only_and_then logs_only_ensureDirectoryExists logs_only_copyAssets
      logs_only_prims logs_only_mono [OF logs_only_buildWasm]) simp_all

lemma logs_only_prebuild_mode: "logs_only (prebuild_mode w cfg) {prebuildCmd cfg}"
  unfolding prebuild_mode_def Let_def by (intro logs_only_intros) simp

lemma logs_only_setup_mode: "logs_only (setup_mode w cfg) {}"
  unfolding setup_mode_def
  by (intro logs_only_and_then logs_only_try_catch logs_only_if logs_only_ensureDirectoryExists
      logs_only_prims)

lemma logs_only_docker_mode:
  "logs_only (docker_mode w cfg) {dockerCmd w (platform cfg) (wasmSrc cfg)}"
  unfolding docker_mode_def runDockerBuild_def by (intro logs_only_intros) simp

lemma logs_onlyD:
  "logs_only m C \<Longrightarrow>
     \<exists>r tr. (\<forall>s. m s = (r, s\<lparr>trace := trace s @ tr\<rparr>)) \<and> set (exec_commands tr) \<subseteq> C"
  by (auto simp: logs_only_def appends_def)

subsection \<open>The module body, one step at a time\<close>

lemma main_unfold:
  "main w =
     (if platform (initial_config w) = [] \<and> truthy (argv2 w)
      then (case exec_outcome w docker_info_cmd of
              Inl e \<Rightarrow> (Throw e,
                \<lparr> config = initial_config w, trace = [ExecSync docker_info_cmd no_options] \<rparr>)
            | Inr out \<Rightarrow> dispatch w
                \<lparr> config = (initial_config w)\<lparr>platform := trim out\<rparr>,
                  trace = [ExecSync docker_info_cmd no_options] \<rparr>)
      else dispatch w (init_state w))"
  by (simp add: main_def resolve_platform_def and_then_def execSync_def emit_def done_unit_def
      init_state_def split: sum.splits)

lemma dispatch_appends:
  "\<exists>r tr. (\<forall>s. config s = cfg \<longrightarrow> dispatch w s = (r, s\<lparr>trace := trace s @ tr\<rparr>))
     \<and> set (exec_commands tr) \<subseteq>
       {prebuildCmd cfg, dockerCmd w (platform cfg) (wasmSrc cfg), ''npm run build'', clangCmd w cfg}"
proof -
  let ?C = "{prebuildCmd cfg, dockerCmd w (platform cfg) (wasmSrc cfg), ''npm run build'', clangCmd w cfg}"
  let ?m = "if argv2 w = Some ''--prebuild'' then prebuild_mode w cfg
      else if argv2 w = Some ''--setup'' then setup_mode w cfg
      else if argv2 w = Some ''--docker'' then docker_mode w cfg
      else default_mode w cfg"
  have "logs_only ?m ?C"
    by (intro logs_only_if logs_only_mono [OF logs_only_prebuild_mode]
        logs_only_mono [OF logs_only_setup_mode] logs_only_mono [OF logs_only_docker_mode]
        logs_only_mono [OF logs_only_default_mode]) simp_all
  then obtain r tr where m: "\<forall>s. ?m s = (r, s\<lparr>trace := trace s @ tr\<rparr>)"
      and c: "set (exec_commands tr) \<subseteq> ?C"
    using logs_onlyD by blast
  have "dispatch w s = (r, s\<lparr>trace := trace s @ tr\<rparr>)" if "config s = cfg" for s
    using m [rule_format, of s] that by (simp add: dispatch_def Let_def split: if_splits)
  then show ?thesis using c by blast
qed

lemma dispatch_config: "config (snd (dispatch w s)) = config s"
proof -
  obtain r tr where "\<forall>t. config t = config s \<longrightarrow> dispatch w t = (r, t\<lparr>trace := trace t @ tr\<rparr>)"
    using dispatch_appends [of "config s" w] by blast
  then have "dispatch w s = (r, s\<lparr>trace := trace s @ tr\<rparr>)" by simp
  then show ?thesis by simp
qed

subsection \<open>No other command is the query of the container runtime\<close>

lemma split_words_docker_info_cmd:
  "split_words docker_info_cmd = [''docker'', ''info'', ''-f'', drop 15 docker_info_cmd]"
  by (simp add: docker_info_cmd_def split_words_def is_space_def)

lemma clangCmd_not_docker_info: "clangCmd w cfg \<noteq> docker_info_cmd"
proof
  assume "clangCmd w cfg = docker_info_cmd"
  then have "split_words (clangCmd w cfg) = split_words docker_info_cmd" by simp
  then show False
    by (simp add: split_words_clangCmd split_words_docker_info_cmd)
qed

lemma other_commands_not_docker_info:
  "prebuildCmd cfg \<noteq> docker_info_cmd"
  "dockerCmd w p src \<noteq> docker_info_cmd"
  "''npm run build'' \<noteq> docker_info_cmd"
  by (simp_all add: prebuildCmd_def dockerCmd_def docker_info_cmd_def Let_def)

lemma dispatch_no_docker_info:
  "docker_info_cmd \<in> set (exec_commands (trace (snd (dispatch w s))))
     \<longleftrightarrow> docker_info_cmd \<in> set (exec_commands (trace s))"
proof -
  obtain r tr where d: "\<forall>t. config t = config s \<longrightarrow> dispatch w t = (r, t\<lparr>trace := trace t @ tr\<rparr>)"
    and c: "set (exec_commands tr) \<subseteq>
       {prebuildCmd (config s), dockerCmd w (platform (config s)) (wasmSrc (config s)),
        ''npm run build'', clangCmd w (config s)}"
    using dispatch_appends [of "config s" w] by blast
  have "docker_info_cmd \<notin> set (exec_commands tr)"
  proof
    assume "docker_info_cmd \<in> set (exec_commands tr)"
    then have "docker_info_cmd \<in> {prebuildCmd (config s),
        dockerCmd w (platform (config s)) (wasmSrc (config s)),
        ''npm run build'', clangCmd w (config s)}"
      using c by blast
    then show False
      using clangCmd_not_docker_info [of w "config s"] other_commands_not_docker_info(1) [of "config s"]
        other_commands_not_docker_info(2) [of w "platform (config s)" "wasmSrc (config s)"]
        other_commands_not_docker_info(3)
      by (elim insertE) simp_all
  qed
  then show ?thesis using d [rule_format, of s] by simp
qed

lemma dispatch_query_count:
  "filter (\<lambda>c. c = docker_info_cmd) (exec_commands (trace (snd (dispatch w s))))
     = filter (\<lambda>c. c = docker_info_cmd) (exec_commands (trace s))"
proof -
  obtain r tr where d: "\<forall>t. config t = config s \<longrightarrow> dispatch w t = (r, t\<lparr>trace := trace t @ tr\<rparr>)"
    using dispatch_appends [of "config s" w] by blast
  then have t: "trace (snd (dispatch w s)) = trace s @ tr" by simp
  have "docker_info_cmd \<notin> set (exec_commands (trace (snd (dispatch w \<lparr>config = config s, trace = []\<rparr>))))"
    by (simp add: dispatch_no_docker_info)
  then have "docker_info_cmd \<notin> set (exec_commands tr)"
    using d by simp
  then have "filter (\<lambda>c. c = docker_info_cmd) (exec_commands tr) = []"
    by (auto simp: filter_empty_conv)
  then show ?thesis by (simp add: t)
qed

lemma logs_only_config: "logs_only m C \<Longrightarrow> config (snd (m s)) = config s"
  using logs_onlyD [of m C] by auto

lemma docker_info_invoked_unfold:
  "docker_info_invoked w \<longleftrightarrow> platform (initial_config w) = [] \<and> truthy (argv2 w)"
proof (cases "platform (initial_config w) = [] \<and> truthy (argv2 w)")
  case True
  then have "main w =
      (case exec_outcome w docker_info_cmd of
         Inl e \<Rightarrow> (Throw e,
           \<lparr> config = initial_config w, trace = [ExecSync docker_info_cmd no_options] \<rparr>)
       | Inr out \<Rightarrow> dispatch w
           \<lparr> config = (initial_config w)\<lparr>platform := trim out\<rparr>,
             trace = [ExecSync docker_info_cmd no_options] \<rparr>)"
    by (simp add: main_unfold)
  then have "docker_info_invoked w"
    by (simp add: docker_info_invoked_def run_trace_def dispatch_no_docker_info split: sum.splits)
  then show ?thesis using True by simp
next
  case False
  have "main w = dispatch w (init_state w)"
    by (subst main_unfold) (rule if_not_P [OF False])
  then have "\<not> docker_info_invoked w"
    by (simp add: docker_info_invoked_def run_trace_def dispatch_no_docker_info init_state_def)
  then show ?thesis using False by simp
qed

subsection \<open>The configuration before and after platform resolution\<close>

lemma initial_config_fields:
  "platform (initial_config w) = (case env_WASM_PLATFORM w of None \<Rightarrow> [] | Some p \<Rightarrow> p)"
  "wasmOut (initial_config w) = path_resolve w (dirname w) ''../build/wasm''"
  "wasmSrc (initial_config w) = path_resolve w (dirname w) ''../''"
  by (simp_all add: initial_config_def)

lemma main_after_resolution:
  "fst (resolve_platform w (init_state w)) = Normal () \<Longrightarrow>
     main w = dispatch w (snd (resolve_platform w (init_state w)))"
  by (cases "resolve_platform w (init_state w)")
    (simp add: main_def and_then_def init_state_def)

lemma resolved_config_unfold:
  "resolved_config w =
     (if platform (initial_config w) = [] \<and> truthy (argv2 w)
      then (case exec_outcome w docker_info_cmd of
              Inl e \<Rightarrow> initial_config w
            | Inr out \<Rightarrow> (initial_config w)\<lparr>platform := trim out\<rparr>)
      else initial_config w)"
  by (simp add: resolved_config_def resolve_platform_def and_then_def execSync_def emit_def
      done_unit_def init_state_def split: sum.splits)

lemma resolved_config_paths:
  "wasmSrc (resolved_config w) = wasmSrc (initial_config w)"
  "wasmOut (resolved_config w) = wasmOut (initial_config w)"
  by (simp_all add: resolved_config_unfold split: sum.splits)

lemma dispatch_modes:
  "argv2 w = Some ''--prebuild'' \<Longrightarrow> dispatch w s = prebuild_mode w (config s) s"
  "argv2 w = Some ''--setup'' \<Longrightarrow> dispatch w s = setup_mode w (config s) s"
  "argv2 w = Some ''--docker'' \<Longrightarrow> dispatch w s = docker_mode w (config s) s"
  "argv2 w = None \<Longrightarrow> dispatch w s = default_mode w (config s) s"
  "argv2 w = Some a \<Longrightarrow> unrecognized a \<Longrightarrow> dispatch w s = default_mode w (config s) s"
  by (simp_all add: dispatch_def unrecognized_def)

subsection \<open>How each container-related mode completes\<close>

lemma setup_mode_result:
  "fst (setup_mode w cfg s) =
     (if exists_outcome w (path_join w [wasmSrc cfg, ''build'']) then ProcessExit 0
      else (case mkdir_outcome w (path_join w [wasmSrc cfg, ''build'']) of
              None \<Rightarrow> ProcessExit 0
            | Some (CodedError c) \<Rightarrow>
                if c = StrCode ''EEXIST'' then ProcessExit 0 else Throw (CodedError c)
            | Some (ExitStatusError n) \<Rightarrow> ProcessExit 0
            | Some UncodedError \<Rightarrow> ProcessExit 0))"
  by (simp add: setup_mode_def try_catch_def and_then_def ensureDirectoryExists_def existsSync_def
      mkdirSync_def failing_def done_unit_def process_exit_def throw_def isErrorWithCode_def
      code_is_not_EEXIST_def split: option.splits js_error.splits js_code.splits)

lemma prebuild_mode_result:
  "fst (prebuild_mode w cfg s) =
     (case exec_outcome w (prebuildCmd cfg) of Inl e \<Rightarrow> Throw e | Inr out \<Rightarrow> ProcessExit 0)"
  by (simp add: prebuild_mode_def and_then_def console_log_def execSync_def process_exit_def
      Let_def split: sum.splits)

lemma docker_mode_result:
  "fst (docker_mode w cfg s) =
     (case exec_outcome w (dockerCmd w (platform cfg) (wasmSrc cfg)) of
        Inl e \<Rightarrow> Throw e | Inr out \<Rightarrow> ProcessExit 0)"
  by (simp add: docker_mode_def runDockerBuild_def and_then_def execSync_def process_exit_def
      done_unit_def split: sum.splits)

subsection \<open>The words of the \<^verbatim>\<open>docker run\<close> command\<close>

lemma digit_not_space: "k < 10 \<Longrightarrow> \<not> is_space (''0123456789'' ! k)"
proof -
  assume "k < 10"
  then have "k \<in> {0, 1, 2, 3, 4, 5, 6, 7, 8, 9}" by auto
  then show ?thesis by (auto simp: is_space_def)
qed

lemma show_nat_nospace: "\<not> list_ex is_space (show_nat n)"
proof (induction n rule: show_nat.induct)
  case (1 n)
  show ?case
  proof (cases "n < 10")
    case True
    then show ?thesis by (subst show_nat.simps) (simp add: digit_not_space)
  next
    case False
    then show ?thesis
      using 1 by (subst show_nat.simps) (simp add: digit_not_space)
  qed
qed

lemma dockerCmd_words:
  assumes "\<not> list_ex is_space plat" and "\<not> list_ex is_space ug" and "ug \<noteq> []"
  shows "split_words (''docker run --rm --platform='' @ plat @ '' --user '' @ ug @ CHR '' '' # rest)
    = ''docker'' # ''run'' # ''--rm'' # (''--platform='' @ plat) # ''--user'' # ug # split_words rest"
proof -
  have "split_words (''docker run --rm --platform='' @ plat @ '' --user '' @ ug @ CHR '' '' # rest)
      = ''docker'' # ''run'' # ''--rm'' # words_from ''--platform='' (plat @ '' --user '' @ ug @ CHR '' '' # rest)"
    by (simp add: split_words_def is_space_def)
  also have "words_from ''--platform='' (plat @ '' --user '' @ ug @ CHR '' '' # rest)
      = (''--platform='' @ plat) # words_from [] (''--user '' @ ug @ CHR '' '' # rest)"
    by (simp add: words_from_nospace [OF assms(1)])
  also have "words_from [] (''--user '' @ ug @ CHR '' '' # rest) = ''--user'' # words_from [] (ug @ CHR '' '' # rest)"
    by (simp add: is_space_def)
  also have "words_from [] (ug @ CHR '' '' # rest) = ug # split_words rest"
    using assms(3) by (simp add: words_from_nospace [OF assms(2)] split_words_def)
  finally show ?thesis .
qed

subsection \<open>The asset assembler, file by file\<close>

lemma companion_files_list:
  "companion_files = [''constants.js'', ''constants.js.map'', ''constants.d.ts'',
     ''utils.js'', ''utils.js.map'', ''utils.d.ts'']"
  by (simp add: companion_files_def)

lemma packageJson_text:
  \<open>packageJson = ''{'' @ [CHR 0x0A] @ ''  "type": "commonjs"'' @ [CHR 0x0A] @ ''}''\<close>
  by (simp add: packageJson_def JSON_stringify_object_def json_quote_def json_escape_def
      numeral_2_eq_2)

lemma copyAsset_step:
  "and_then (copyAsset w cfg f) k s =
     (case copy_failure w cfg f of
        Some e \<Rightarrow> (Throw e, s\<lparr>trace := trace s @ [copy_action w cfg f]\<rparr>)
      | None \<Rightarrow> k () (s\<lparr>trace := trace s @ [copy_action w cfg f]\<rparr>))"
  by (simp add: and_then_def copyAsset_def copyFileSync_def copy_failure_def copy_action_def
      failing_def emit_def split: option.splits)

lemma copyAssets_unfold:
  "copyAssets w cfg s =
     (case first_failure w cfg companion_files of
        Some e \<Rightarrow>
          (Throw e, s\<lparr>trace := trace s @ map (copy_action w cfg) (attempted w cfg companion_files)\<rparr>)
      | None \<Rightarrow>
          (failing (write_outcome w (path_join w [wasmOut cfg, ''package.json'']) packageJson),
           s\<lparr>trace := trace s @ map (copy_action w cfg) companion_files
                @ [WriteFileSync (path_join w [wasmOut cfg, ''package.json'']) packageJson]\<rparr>))"
  unfolding copyAssets_def companion_files_list
  by (simp add: copyAsset_step writeFileSync_def emit_def split: option.splits)

subsection \<open>What the local pipeline does not depend on\<close>

lemma default_mode_ignores_platform:
  "default_mode w (cfg\<lparr>platform := p\<rparr>) = default_mode w cfg"
  by (simp add: default_mode_def buildWasm_def copyAssets_def copyAsset_def clangCmd_def
      clang_inputs_def)

lemma calls_ignore_argv2:
  "execSync (w\<lparr>argv2 := a\<rparr>) cmd opts = execSync w cmd opts"
  "existsSync (w\<lparr>argv2 := a\<rparr>) p = existsSync w p"
  "mkdirSync (w\<lparr>argv2 := a\<rparr>) p = mkdirSync w p"
  "copyFileSync (w\<lparr>argv2 := a\<rparr>) src dst = copyFileSync w src dst"
  "writeFileSync (w\<lparr>argv2 := a\<rparr>) p c = writeFileSync w p c"
  by (rule ext, simp add: execSync_def existsSync_def mkdirSync_def copyFileSync_def
      writeFileSync_def)+

lemma default_mode_ignores_argv2:
  "default_mode (w\<lparr>argv2 := a\<rparr>) cfg = default_mode w cfg"
  by (simp add: default_mode_def buildWasm_def copyAssets_def copyAsset_def clangCmd_def
      clang_inputs_def ensureDirectoryExists_def calls_ignore_argv2 cong: if_cong)

lemma initial_config_ignores_argv2: "initial_config (w\<lparr>argv2 := a\<rparr>) = initial_config w"
  by (simp add: initial_config_def)

lemma main_without_argument:
  "argv2 w = None \<Longrightarrow> main w = default_mode w (initial_config w) (init_state w)"
  by (simp add: main_unfold truthy_def dispatch_modes init_state_def)

lemma not_container_commands:
  "\<not> is_container_command ''npm run build''"
  "\<not> is_container_command (clangCmd w cfg)"
proof -
  show "\<not> is_container_command ''npm run build''"
    by (simp add: is_container_command_def split_words_def is_space_def)
  show "\<not> is_container_command (clangCmd w cfg)"
    by (simp add: is_container_command_def split_words_clangCmd)
qed

lemma default_mode_no_container:
  "filter is_container_command (exec_commands (trace (snd (default_mode w cfg s))))
     = filter is_container_command (exec_commands (trace s))"
proof -
  obtain r tr where m: "\<forall>s. default_mode w cfg s = (r, s\<lparr>trace := trace s @ tr\<rparr>)"
      and c: "set (exec_commands tr) \<subseteq> {''npm run build'', clangCmd w cfg}"
    using logs_onlyD [OF logs_only_default_mode] by blast
  have "filter is_container_command (exec_commands tr) = []"
    using c not_container_commands(1) not_container_commands(2) [of w cfg]
    by (auto simp: filter_empty_conv)
  then show ?thesis by (simp add: m [rule_format])
qed

lemma final_config_resolved: "final_config w = resolved_config w"
  by (simp add: final_config_def main_unfold dispatch_config resolved_config_unfold init_state_def
      split: sum.splits)

subsection \<open>Facts about the example surroundings\<close>

lemmas example_worlds =
  setup_eexist_world_def setup_denied_world_def prebuild_world_def unknown_mode_world_def
  blank_checkout_world_def
  prebuild_failing_world_def darwin_world_def empty_arg_world_def empty_override_world_def
  docker_mode_world_def override_world_def linux_world_def

lemma resolution_skipped:
  "platform (initial_config w) \<noteq> [] \<or> \<not> truthy (argv2 w) \<Longrightarrow>
     resolve_platform w (init_state w) = (Normal (), init_state w)"
  by (auto simp: resolve_platform_def init_state_def done_unit_def)

lemma init_state_fields:
  "config (init_state w) = initial_config w" "trace (init_state w) = []"
  by (simp_all add: init_state_def)

lemma linux_paths:
  "wasmOut (initial_config linux_world) = ''/repo/build/wasm''"
  "wasmSrc (initial_config linux_world) = ''/repo''"
  by (simp_all add: initial_config_fields linux_world_def posix_resolve_def)

lemma linux_copy_action:
  "f \<in> set companion_files \<Longrightarrow>
     copy_action linux_world (initial_config linux_world) f
       = CopyFileSync (''/repo/lib/llhttp/'' @ f) (''/repo/build/wasm/'' @ f)"
  by (auto simp: companion_files_list copy_action_def linux_paths)
    (simp_all add: linux_world_def posix_join_def posix_normalize_def Let_def)

section \<open>The compiler command and its output file\<close>




section \<open>Setup mode and directory-creation errors\<close>

text \<open>
  Claim C3. In setup mode, once platform resolution has completed, the run ends with
  \<^verbatim>\<open>process.exit(0)\<close> when the directory exists, when it is created, and when creating
  it fails with "already exists" (the code \<^verbatim>\<open>EEXIST\<close>); every other failure of the
  directory creation is thrown again, the very error that was raised, nobody catches it
  and the process ends with a non-zero status. The errors of the directory creation are
  those of Node's \<^verbatim>\<open>mkdirSync\<close>, which all carry a \<^verbatim>\<open>code\<close>; this is the third
  assumption.
\<close>

theorem setup_mode_errors:
  assumes "argv2 w = Some ''--setup''"
    and "fst (resolve_platform w (init_state w)) = Normal ()"
    and "\<forall>e. mkdir_outcome w (path_join w [wasmSrc (initial_config w), ''build'']) = Some e
           \<longrightarrow> isErrorWithCode e"
  shows "run_result w =
     (if exists_outcome w (path_join w [wasmSrc (initial_config w), ''build'']) then ProcessExit 0
      else (case mkdir_outcome w (path_join w [wasmSrc (initial_config w), ''build'']) of
              None \<Rightarrow> ProcessExit 0
            | Some e \<Rightarrow>
                if e = CodedError (StrCode ''EEXIST'') then ProcessExit 0 else Throw e))
    \<and> exit_status (ProcessExit 0) = 0 \<and> exit_status (Throw e') = 1"
proof -
  let ?dir = "path_join w [wasmSrc (initial_config w), ''build'']"
  have "run_result w =
      fst (setup_mode w (resolved_config w) (snd (resolve_platform w (init_state w))))"
    using assms(1,2)
    by (simp add: run_result_def main_after_resolution dispatch_modes resolved_config_def)
  then have r: "run_result w =
     (if exists_outcome w ?dir then ProcessExit 0
      else (case mkdir_outcome w ?dir of
              None \<Rightarrow> ProcessExit 0
            | Some (CodedError c) \<Rightarrow>
                if c = StrCode ''EEXIST'' then ProcessExit 0 else Throw (CodedError c)
            | Some (ExitStatusError n) \<Rightarrow> ProcessExit 0
            | Some UncodedError \<Rightarrow> ProcessExit 0))"
    by (simp only: setup_mode_result resolved_config_paths)
  have "run_result w =
     (if exists_outcome w ?dir then ProcessExit 0
      else (case mkdir_outcome w ?dir of
              None \<Rightarrow> ProcessExit 0
            | Some e \<Rightarrow>
                if e = CodedError (StrCode ''EEXIST'') then ProcessExit 0 else Throw e))"
  proof (cases "mkdir_outcome w ?dir")
    case None
    then show ?thesis by (simp add: r)
  next
    case (Some e)
    then have "isErrorWithCode e" using assms(3) by simp
    then obtain c where "e = CodedError c"
      by (cases e) (simp_all add: isErrorWithCode_def)
    then show ?thesis using Some by (simp add: r)
  qed
  then show ?thesis
    by (simp add: exit_status_def)
qed

theorem setup_mode_errors_witness:
  "argv2 setup_denied_world = Some ''--setup''
   \<and> fst (resolve_platform setup_denied_world (init_state setup_denied_world)) = Normal ()
   \<and> mkdir_outcome setup_denied_world
        (path_join setup_denied_world [wasmSrc (initial_config setup_denied_world), ''build''])
      = Some (CodedError (StrCode ''EACCES''))
   \<and> isErrorWithCode (CodedError (StrCode ''EACCES''))
   \<and> run_result setup_denied_world = Throw (CodedError (StrCode ''EACCES''))
   \<and> run_result setup_eexist_world = ProcessExit 0"
proof -
  have a: "argv2 setup_denied_world = Some ''--setup''" "argv2 setup_eexist_world = Some ''--setup''"
    by (simp_all add: example_worlds)
  have r: "fst (resolve_platform setup_denied_world (init_state setup_denied_world)) = Normal ()"
    "fst (resolve_platform setup_eexist_world (init_state setup_eexist_world)) = Normal ()"
    by (simp_all add: resolution_skipped initial_config_fields example_worlds)
  have m: "mkdir_outcome setup_denied_world p = Some (CodedError (StrCode ''EACCES''))"
    "mkdir_outcome setup_eexist_world p = Some (CodedError (StrCode ''EEXIST''))"
    "exists_outcome setup_denied_world p = False" "exists_outcome setup_eexist_world p = False"
    for p
    by (simp_all add: example_worlds)
  have c: "isErrorWithCode (CodedError c)" for c
    by (simp add: isErrorWithCode_def)
  show ?thesis
    using setup_mode_errors [OF a(1) r(1), of UncodedError]
      setup_mode_errors [OF a(2) r(2), of UncodedError] a r
    by (simp add: m c)
qed

section \<open>An unrecognized mode argument\<close>

text \<open>
  Claim C4, as the code has it. A non-empty mode argument that is none of the three modes
  selects the local pipeline. When the override supplies a platform, the run is the run
  without an argument: same result, same operations, same configuration. When it does
  not, the run first queries \<^verbatim>\<open>docker info\<close>; if the query fails the run ends with its
  error and nothing else is done; otherwise it goes on with the result and the operations
  of the run without an argument.
\<close>

theorem unrecognized_mode_runs_local:
  assumes "argv2 w = Some a" and "a \<noteq> []" and "unrecognized a"
  shows "(platform (initial_config w) \<noteq> [] \<longrightarrow> main w = main (w\<lparr>argv2 := None\<rparr>))
    \<and> (platform (initial_config w) = [] \<longrightarrow>
         (case exec_outcome w docker_info_cmd of
            Inl e \<Rightarrow> run_result w = Throw e
               \<and> run_trace w = [ExecSync docker_info_cmd no_options]
          | Inr out \<Rightarrow> run_result w = run_result (w\<lparr>argv2 := None\<rparr>)
               \<and> run_trace w = ExecSync docker_info_cmd no_options # run_trace (w\<lparr>argv2 := None\<rparr>)))"
proof -
  let ?w0 = "w\<lparr>argv2 := None\<rparr>"
  let ?cfg = "initial_config w"
  have m0: "main ?w0 = default_mode w ?cfg (init_state w)"
    using main_without_argument [of ?w0]
    by (simp add: default_mode_ignores_argv2 initial_config_ignores_argv2 init_state_def)
  obtain r tr where m: "\<forall>s. default_mode w ?cfg s = (r, s\<lparr>trace := trace s @ tr\<rparr>)"
    using logs_onlyD [OF logs_only_default_mode] by blast
  have t: "truthy (argv2 w)"
    using assms by (simp add: truthy_def)
  have set: "platform ?cfg \<noteq> [] \<Longrightarrow> main w = main ?w0"
    using assms main_unfold [of w] by (simp add: m0 dispatch_modes init_state_def)
  have fail: "run_result w = Throw e \<and> run_trace w = [ExecSync docker_info_cmd no_options]"
    if "platform ?cfg = []" "exec_outcome w docker_info_cmd = Inl e" for e
    using that t main_unfold [of w] by (simp add: run_result_def run_trace_def)
  have ok: "run_result w = run_result ?w0
      \<and> run_trace w = ExecSync docker_info_cmd no_options # run_trace ?w0"
    if "platform ?cfg = []" "exec_outcome w docker_info_cmd = Inr out" for out
    using that t assms main_unfold [of w]
    by (simp add: run_result_def run_trace_def m0 dispatch_modes
        default_mode_ignores_platform m [rule_format] init_state_def)
  show ?thesis
    using set fail ok by (simp split: sum.splits)
qed

theorem unrecognized_mode_runs_local_witness:
  "argv2 unknown_mode_world = Some ''--local'' \<and> unrecognized ''--local''
   \<and> platform (initial_config unknown_mode_world) = []
   \<and> run_result unknown_mode_world = run_result (unknown_mode_world\<lparr>argv2 := None\<rparr>)
   \<and> run_trace unknown_mode_world
      = ExecSync docker_info_cmd no_options # run_trace (unknown_mode_world\<lparr>argv2 := None\<rparr>)"
proof -
  have a: "argv2 unknown_mode_world = Some ''--local''"
    by (simp add: example_worlds)
  have n: "''--local'' \<noteq> []" by simp
  have u: "unrecognized ''--local''"
    by (simp add: unrecognized_def)
  have p: "platform (initial_config unknown_mode_world) = []"
    by (simp add: initial_config_fields example_worlds)
  have e: "exec_outcome unknown_mode_world docker_info_cmd = Inr ''linux/amd64\<newline>''"
    by (simp add: example_worlds)
  show ?thesis
    using unrecognized_mode_runs_local [OF a n u] a u p by (simp add: e)
qed

text \<open>
  The claim as stated fails: without an override, the run with an unrecognized argument
  queries the container runtime and the run without an argument does not.
\<close>

theorem unrecognized_mode_queries_docker:
  "argv2 unknown_mode_world = Some ''--local'' \<and> unrecognized ''--local''
   \<and> docker_info_cmd \<in> set (exec_commands (run_trace unknown_mode_world))
   \<and> docker_info_cmd \<notin> set (exec_commands (run_trace (unknown_mode_world\<lparr>argv2 := None\<rparr>)))
   \<and> run_trace unknown_mode_world \<noteq> run_trace (unknown_mode_world\<lparr>argv2 := None\<rparr>)"
proof -
  have a: "argv2 unknown_mode_world = Some ''--local''"
    by (simp add: example_worlds)
  have u: "unrecognized ''--local''"
    by (simp add: unrecognized_def)
  have i: "docker_info_invoked unknown_mode_world"
    by (simp add: docker_info_invoked_unfold initial_config_fields truthy_def example_worlds)
  have j: "\<not> docker_info_invoked (unknown_mode_world\<lparr>argv2 := None\<rparr>)"
    by (simp add: docker_info_invoked_unfold truthy_def)
  from i j have "run_trace unknown_mode_world \<noteq> run_trace (unknown_mode_world\<lparr>argv2 := None\<rparr>)"
    unfolding docker_info_invoked_def by auto
  then show ?thesis
    using a u i j by (simp add: docker_info_invoked_def)
qed

section \<open>Exit status of the image and containerized modes\<close>

text \<open>
  Claim C5, as the code has it. In image mode and in containerized mode, once platform
  resolution has completed, a failing subprocess makes the run end with the error that
  \<^verbatim>\<open>execSync\<close> throws (for a non-zero exit it carries the child's status); nobody
  catches it, so the Node process ends with status 1, whatever the child's status was.
  When the subprocess succeeds the run ends with \<^verbatim>\<open>process.exit(0)\<close>.
\<close>

theorem container_modes_exit_status:
  assumes "fst (resolve_platform w (init_state w)) = Normal ()"
  shows "(argv2 w = Some ''--prebuild'' \<longrightarrow>
            run_result w =
              (case exec_outcome w (prebuildCmd (resolved_config w)) of
                 Inl e \<Rightarrow> Throw e | Inr out \<Rightarrow> ProcessExit 0))
       \<and> (argv2 w = Some ''--docker'' \<longrightarrow>
            run_result w =
              (case exec_outcome w
                      (dockerCmd w (platform (resolved_config w)) (wasmSrc (resolved_config w))) of
                 Inl e \<Rightarrow> Throw e | Inr out \<Rightarrow> ProcessExit 0))
       \<and> exit_status (Throw e) = 1 \<and> exit_status (ProcessExit 0) = 0"
  using assms
  by (simp add: run_result_def main_after_resolution dispatch_modes resolved_config_def
      prebuild_mode_result docker_mode_result exit_status_def)

theorem container_modes_exit_status_witness:
  "fst (resolve_platform prebuild_world (init_state prebuild_world)) = Normal ()
   \<and> argv2 prebuild_world = Some ''--prebuild''
   \<and> run_result prebuild_world = ProcessExit 0
   \<and> exit_status (Throw (ExitStatusError 2)) = 1"
proof -
  have r: "fst (resolve_platform prebuild_world (init_state prebuild_world)) = Normal ()"
    by (simp add: resolution_skipped initial_config_fields example_worlds)
  have a: "argv2 prebuild_world = Some ''--prebuild''"
    by (simp add: example_worlds)
  have e: "exec_outcome prebuild_world c = Inr []" if "c \<noteq> docker_info_cmd" for c
    using that by (simp add: example_worlds)
  show ?thesis
    using container_modes_exit_status [OF r, of "ExitStatusError 2"] r a
    by (simp add: e other_commands_not_docker_info)
qed

text \<open>
  The claim as stated fails: \<^verbatim>\<open>docker build\<close> exits with status 2 and the orchestrator
  ends with status 1.
\<close>

theorem docker_build_status_not_inherited:
  "argv2 prebuild_failing_world = Some ''--prebuild''
   \<and> exec_outcome prebuild_failing_world (prebuildCmd (resolved_config prebuild_failing_world))
      = Inl (ExitStatusError 2)
   \<and> run_result prebuild_failing_world = Throw (ExitStatusError 2)
   \<and> exit_status (run_result prebuild_failing_world) = 1
   \<and> exit_status (run_result prebuild_failing_world) \<noteq> 2"
proof -
  have a: "argv2 prebuild_failing_world = Some ''--prebuild''"
    by (simp add: example_worlds)
  have r: "resolve_platform prebuild_failing_world (init_state prebuild_failing_world)
      = (Normal (), init_state prebuild_failing_world)"
    by (simp add: resolution_skipped initial_config_fields example_worlds)
  have e: "exec_outcome prebuild_failing_world c = Inl (ExitStatusError 2)" for c
    by (simp add: example_worlds)
  have "run_result prebuild_failing_world = Throw (ExitStatusError 2)"
    by (simp add: run_result_def main_after_resolution r dispatch_modes a prebuild_mode_result e)
  then show ?thesis
    using a e by (simp add: exit_status_def)
qed

section \<open>The user of the container\<close>

text \<open>
  Claim C6, as the code has it. Containerized mode runs one command, \<^verbatim>\<open>docker run\<close>.
  Its \<^verbatim>\<open>--user\<close> option carries the numeric user and effective group of the invoking
  process on a Linux host, and \<^verbatim>\<open>1000:1000\<close> on every other host; when the platform has
  no white space in it, this is the word that follows the first \<^verbatim>\<open>--user\<close> of the
  command.
\<close>

theorem docker_run_user:
  "snd (docker_mode w cfg s)
     = emit (ExecSync (dockerCmd w (platform cfg) (wasmSrc cfg))
              \<lparr> cwd = Some (wasmSrc cfg), stdio_inherit = True,
                env_extra = [(''DOCKER_BUILDKIT'', ''1'')] \<rparr>) s
   \<and> dockerCmd w (platform cfg) (wasmSrc cfg)
     = ''docker run --rm --platform='' @ platform cfg @ '' --user ''
       @ (if process_platform w = ''linux''
          then show_nat (getuid w) @ '':'' @ show_nat (getegid w)
          else ''1000:1000'')
       @ '' --mount type=bind,source='' @ wasmSrc cfg
       @ ''/build,target=/home/node/llhttp/build llhttp_wasm_builder npm run wasm''
   \<and> (\<not> list_ex is_space (platform cfg) \<longrightarrow>
        user_option (split_words (dockerCmd w (platform cfg) (wasmSrc cfg)))
          = Some (if process_platform w = ''linux''
                  then show_nat (getuid w) @ '':'' @ show_nat (getegid w)
                  else ''1000:1000''))"
proof -
  define uid where "uid = (if process_platform w = ''linux'' then getuid w else 1000)"
  define gid where "gid = (if process_platform w = ''linux'' then getegid w else 1000)"
  define ug where "ug = show_nat uid @ '':'' @ show_nat gid"
  define rest where "rest = ''--mount type=bind,source='' @ wasmSrc cfg
      @ ''/build,target=/home/node/llhttp/build llhttp_wasm_builder npm run wasm''"
  have k: "show_nat 1000 = ''1000''"
    by (simp add: show_nat.simps)
  have ug: "\<not> list_ex is_space ug" "ug \<noteq> []"
    by (simp_all add: ug_def show_nat_nospace is_space_def)
  have ug_eq: "ug = (if process_platform w = ''linux''
      then show_nat (getuid w) @ '':'' @ show_nat (getegid w) else ''1000:1000'')"
    by (simp add: ug_def uid_def gid_def k)
  have cmd: "dockerCmd w (platform cfg) (wasmSrc cfg)
      = ''docker run --rm --platform='' @ platform cfg @ '' --user '' @ ug @ CHR '' '' # rest"
    by (simp add: dockerCmd_def Let_def ug_def uid_def gid_def rest_def)
  have one: "snd (docker_mode w cfg s)
       = emit (ExecSync (dockerCmd w (platform cfg) (wasmSrc cfg))
                \<lparr> cwd = Some (wasmSrc cfg), stdio_inherit = True,
                  env_extra = [(''DOCKER_BUILDKIT'', ''1'')] \<rparr>) s"
    by (simp add: docker_mode_def runDockerBuild_def and_then_def execSync_def process_exit_def
        done_unit_def split: sum.splits)
  have shape: "dockerCmd w (platform cfg) (wasmSrc cfg)
     = ''docker run --rm --platform='' @ platform cfg @ '' --user '' @ ug
       @ '' --mount type=bind,source='' @ wasmSrc cfg
       @ ''/build,target=/home/node/llhttp/build llhttp_wasm_builder npm run wasm''"
    by (simp add: cmd rest_def)
  have "user_option (split_words (dockerCmd w (platform cfg) (wasmSrc cfg))) = Some ug"
    if "\<not> list_ex is_space (platform cfg)"
    unfolding cmd dockerCmd_words [OF that ug] by simp
  then show ?thesis
    using one shape unfolding ug_eq by blast
qed

theorem docker_run_user_witness:
  "\<not> list_ex is_space (platform (initial_config override_world))
   \<and> user_option (split_words (dockerCmd override_world (platform (initial_config override_world))
        (wasmSrc (initial_config override_world)))) = Some ''1001:1002''"
proof -
  have p: "platform (initial_config override_world) = ''linux/amd64''"
    by (simp add: initial_config_fields example_worlds)
  have h: "\<not> list_ex is_space (platform (initial_config override_world))"
    by (simp add: p is_space_def)
  have n: "show_nat 1001 = ''1001''" "show_nat 1002 = ''1002''"
    by (simp_all add: show_nat.simps)
  have f: "process_platform override_world = ''linux''" "getuid override_world = 1001"
    "getegid override_world = 1002"
    by (simp_all add: example_worlds)
  have "user_option (split_words (dockerCmd override_world
        (platform (initial_config override_world)) (wasmSrc (initial_config override_world))))
      = Some (if process_platform override_world = ''linux''
              then show_nat (getuid override_world) @ '':'' @ show_nat (getegid override_world)
              else ''1000:1000'')"
    using docker_run_user [of override_world "initial_config override_world"
        "init_state override_world"] h
    by blast
  then show ?thesis
    using h by (simp add: f n)
qed

text \<open>
  The claim as stated fails: macOS is a POSIX host, and there the container runs as
  \<^verbatim>\<open>1000:1000\<close>, not as the invoking user 501 of group 20.
\<close>

theorem darwin_runs_as_fallback_user:
  "posix_host (process_platform darwin_world)
   \<and> map (\<lambda>c. user_option (split_words c)) (exec_commands (run_trace darwin_world))
      = [Some ''1000:1000'']
   \<and> show_nat (getuid darwin_world) @ '':'' @ show_nat (getegid darwin_world) = ''501:20''"
proof -
  have a: "argv2 darwin_world = Some ''--docker''"
    by (simp add: example_worlds)
  have r: "resolve_platform darwin_world (init_state darwin_world)
      = (Normal (), init_state darwin_world)"
    by (simp add: resolution_skipped initial_config_fields example_worlds)
  have p: "platform (initial_config darwin_world) = ''linux/arm64''"
    by (simp add: initial_config_fields example_worlds)
  have "main darwin_world = docker_mode darwin_world (initial_config darwin_world)
      (init_state darwin_world)"
    by (simp add: main_after_resolution r dispatch_modes a init_state_fields)
  then have t: "run_trace darwin_world =
      [ExecSync (dockerCmd darwin_world ''linux/arm64'' (wasmSrc (initial_config darwin_world)))
        \<lparr> cwd = Some (wasmSrc (initial_config darwin_world)), stdio_inherit = True,
          env_extra = [(''DOCKER_BUILDKIT'', ''1'')] \<rparr>]"
    by (simp add: run_trace_def docker_mode_def runDockerBuild_def and_then_def execSync_def
        emit_def process_exit_def done_unit_def init_state_def p split: sum.splits)
  have f: "process_platform darwin_world = ''darwin''" "getuid darwin_world = 501"
    "getegid darwin_world = 20"
    by (simp_all add: example_worlds)
  have n: "show_nat 1000 = ''1000''" "show_nat 501 = ''501''" "show_nat 20 = ''20''"
    by (simp_all add: show_nat.simps)
  have "dockerCmd darwin_world ''linux/arm64'' src
      = ''docker run --rm --platform=linux/arm64 --user 1000:1000 ''
        @ ''--mount type=bind,source='' @ src
        @ ''/build,target=/home/node/llhttp/build llhttp_wasm_builder npm run wasm''" for src
    by (simp add: dockerCmd_def f n)
  then have "user_option (split_words (dockerCmd darwin_world ''linux/arm64'' src))
      = Some ''1000:1000''" for src
    by (simp add: split_words_def is_space_def)
  then show ?thesis
    by (simp add: t f n posix_host_def)
qed

section \<open>When the container runtime is queried\<close>

text \<open>
  Claim C7, as the code has it. A run executes \<^verbatim>\<open>docker info\<close> if and only if the
  override variable is unset or empty and the mode argument is present and not empty.
\<close>

theorem docker_info_query_condition:
  "docker_info_invoked w \<longleftrightarrow>
     (env_WASM_PLATFORM w = None \<or> env_WASM_PLATFORM w = Some [])
     \<and> argv2 w \<noteq> None \<and> argv2 w \<noteq> Some []"
proof -
  have "docker_info_invoked w \<longleftrightarrow> platform (initial_config w) = [] \<and> truthy (argv2 w)"
    by (rule docker_info_invoked_unfold)
  moreover have "platform (initial_config w) = []
      \<longleftrightarrow> env_WASM_PLATFORM w = None \<or> env_WASM_PLATFORM w = Some []"
    by (cases "env_WASM_PLATFORM w") (simp_all add: initial_config_fields)
  moreover have "truthy (argv2 w) \<longleftrightarrow> argv2 w \<noteq> None \<and> argv2 w \<noteq> Some []"
    by (cases "argv2 w") (simp_all add: truthy_def)
  ultimately show ?thesis by simp
qed

theorem docker_info_query_condition_witness:
  "docker_info_invoked docker_mode_world \<and> \<not> docker_info_invoked override_world"
  using docker_info_query_condition [of docker_mode_world]
    docker_info_query_condition [of override_world]
  by (simp add: example_worlds)

text \<open>
  The claim as stated fails at the empty string: an empty mode argument is present and
  no query is made; an override set to the empty string is set and the query is made.
\<close>

theorem empty_values_skip_or_trigger_query:
  "env_WASM_PLATFORM empty_arg_world = None \<and> argv2 empty_arg_world = Some []
   \<and> \<not> docker_info_invoked empty_arg_world
   \<and> env_WASM_PLATFORM empty_override_world = Some []
   \<and> argv2 empty_override_world = Some ''--docker''
   \<and> docker_info_invoked empty_override_world"
  by (simp add: docker_info_invoked_unfold initial_config_fields truthy_def example_worlds)

section \<open>The configuration is built once and then left alone\<close>

text \<open>
  Claim C8. The configuration is created once per run: the object literal, completed by
  the platform resolution that follows it at once and queries the container runtime at
  most once, is the configuration that the switch receives. From then on it is never
  modified: the configuration at the end of the run is the one the switch received, the
  switch leaves the configuration of any state as it finds it, and so does each of the
  four modes, for every field.
\<close>

theorem config_immutable:
  "resolved_config w =
     (if platform (initial_config w) = [] \<and> truthy (argv2 w)
      then (case exec_outcome w docker_info_cmd of
              Inl e \<Rightarrow> initial_config w
            | Inr out \<Rightarrow> (initial_config w)\<lparr>platform := trim out\<rparr>)
      else initial_config w)
   \<and> length (filter (\<lambda>c. c = docker_info_cmd) (exec_commands (run_trace w)))
       = (if platform (initial_config w) = [] \<and> truthy (argv2 w) then 1 else 0)
   \<and> (fst (resolve_platform w (init_state w)) = Normal () \<longrightarrow>
        config (snd (resolve_platform w (init_state w))) = resolved_config w
        \<and> main w = dispatch w (snd (resolve_platform w (init_state w))))
   \<and> final_config w = resolved_config w
   \<and> platform (final_config w) = platform (resolved_config w)
   \<and> wasmOut (final_config w) = wasmOut (resolved_config w)
   \<and> wasmSrc (final_config w) = wasmSrc (resolved_config w)
   \<and> emflags (final_config w) = emflags (resolved_config w)
   \<and> config (snd (dispatch w s)) = config s
   \<and> config (snd (prebuild_mode w cfg s)) = config s
   \<and> config (snd (setup_mode w cfg s)) = config s
   \<and> config (snd (docker_mode w cfg s)) = config s
   \<and> config (snd (default_mode w cfg s)) = config s"
proof -
  have once: "length (filter (\<lambda>c. c = docker_info_cmd) (exec_commands (run_trace w)))
       = (if platform (initial_config w) = [] \<and> truthy (argv2 w) then 1 else 0)"
  proof (cases "platform (initial_config w) = [] \<and> truthy (argv2 w)")
    case True
    then have "main w =
      (case exec_outcome w docker_info_cmd of
         Inl e \<Rightarrow> (Throw e,
           \<lparr> config = initial_config w, trace = [ExecSync docker_info_cmd no_options] \<rparr>)
       | Inr out \<Rightarrow> dispatch w
           \<lparr> config = (initial_config w)\<lparr>platform := trim out\<rparr>,
             trace = [ExecSync docker_info_cmd no_options] \<rparr>)"
      by (simp add: main_unfold)
    then show ?thesis
      using True by (simp add: run_trace_def dispatch_query_count split: sum.splits)
  next
    case False
    have "main w = dispatch w (init_state w)"
      by (subst main_unfold) (rule if_not_P [OF False])
    then show ?thesis
      using False by (simp add: run_trace_def dispatch_query_count init_state_def)
  qed
  have handed: "fst (resolve_platform w (init_state w)) = Normal () \<longrightarrow>
        config (snd (resolve_platform w (init_state w))) = resolved_config w
        \<and> main w = dispatch w (snd (resolve_platform w (init_state w)))"
    by (simp add: resolved_config_def main_after_resolution)
  have modes: "config (snd (prebuild_mode w cfg s)) = config s"
    "config (snd (setup_mode w cfg s)) = config s"
    "config (snd (docker_mode w cfg s)) = config s"
    "config (snd (default_mode w cfg s)) = config s"
    by (rule logs_only_config, rule logs_only_prebuild_mode logs_only_setup_mode
        logs_only_docker_mode logs_only_default_mode)+
  show ?thesis
    using resolved_config_unfold [of w] once handed final_config_resolved [of w]
      dispatch_config [of w s] modes
    by (simp only: simp_thms)
qed

theorem config_immutable_witness:
  "fst (resolve_platform docker_mode_world (init_state docker_mode_world)) = Normal ()
   \<and> resolved_config docker_mode_world
       = (initial_config docker_mode_world)\<lparr>platform := ''linux/amd64''\<rparr>
   \<and> final_config docker_mode_world = resolved_config docker_mode_world
   \<and> length (filter (\<lambda>c. c = docker_info_cmd) (exec_commands (run_trace docker_mode_world))) = 1"
proof -
  have t: "trim ''linux/amd64\<newline>'' = ''linux/amd64''"
    by (simp add: trim_def is_space_def)
  have d: "platform (initial_config docker_mode_world) = []" "truthy (argv2 docker_mode_world)"
    "exec_outcome docker_mode_world docker_info_cmd = Inr ''linux/amd64\<newline>''"
    by (simp_all add: initial_config_fields truthy_def example_worlds)
  have r: "fst (resolve_platform docker_mode_world (init_state docker_mode_world)) = Normal ()"
    by (simp add: resolve_platform_def and_then_def execSync_def init_state_def d)
  show ?thesis
    using config_immutable [of docker_mode_world "init_state docker_mode_world"
        "initial_config docker_mode_world"] r
    by (simp add: d t)
qed

section \<open>The companion files\<close>

text \<open>
  Claim C9, as the code has it. The asset assembler copies six companion files, which are
  two logical assets (\<^verbatim>\<open>constants\<close> and \<^verbatim>\<open>utils\<close>), each in three forms, from
  \<^verbatim>\<open>lib/llhttp\<close> under the source root to the output directory under the same file
  name, one after the other; then it writes one file \<^verbatim>\<open>package.json\<close> whose content is
  the JSON text of an object with the single property \<^verbatim>\<open>type\<close>. The first copy that
  fails ends the step with its error: no later file is copied and the descriptor is not
  written.
\<close>

theorem copyAssets_contract:
  \<open>copyAssets w cfg s =
     (case first_failure w cfg companion_files of
        Some e \<Rightarrow>
          (Throw e, s\<lparr>trace := trace s @ map (copy_action w cfg) (attempted w cfg companion_files)\<rparr>)
      | None \<Rightarrow>
          (failing (write_outcome w (path_join w [wasmOut cfg, ''package.json'']) packageJson),
           s\<lparr>trace := trace s @ map (copy_action w cfg) companion_files
                @ [WriteFileSync (path_join w [wasmOut cfg, ''package.json'']) packageJson]\<rparr>))
   \<and> length companion_files = 6
   \<and> logical_assets companion_files = [''constants'', ''utils'']
   \<and> copy_action w cfg f
       = CopyFileSync (path_join w [wasmSrc cfg, ''lib'', ''llhttp'', f]) (path_join w [wasmOut cfg, f])
   \<and> packageJson = JSON_stringify_object [(''type'', ''commonjs'')] 2
   \<and> packageJson = ''{'' @ [CHR 0x0A] @ ''  "type": "commonjs"'' @ [CHR 0x0A] @ ''}''\<close>
proof -
  have "logical_assets companion_files = [''constants'', ''utils'']"
    by (simp add: companion_files_list logical_assets_def)
  moreover have "length companion_files = 6"
    by (simp add: companion_files_list)
  moreover have "packageJson = JSON_stringify_object [(''type'', ''commonjs'')] 2"
    by (simp add: packageJson_def)
  ultimately show ?thesis
    using copyAssets_unfold [of w cfg s] packageJson_text
    by (simp only: copy_action_def)
qed

theorem copyAssets_contract_witness:
  "copyAssets linux_world (initial_config linux_world) (init_state linux_world)
   = (Normal (), (init_state linux_world)\<lparr>trace :=
        map (copy_action linux_world (initial_config linux_world)) companion_files
        @ [WriteFileSync (path_join linux_world [wasmOut (initial_config linux_world), ''package.json''])
             packageJson]\<rparr>)"
proof -
  have "first_failure linux_world (initial_config linux_world) companion_files = None"
    by (simp add: companion_files_list copy_failure_def linux_world_def)
  then show ?thesis
    using copyAssets_contract [of linux_world "initial_config linux_world" "init_state linux_world"]
    by (simp add: failing_def init_state_def) (simp add: linux_world_def)
qed

text \<open>
  The claim as stated fails on the number of logical assets: the six files are two
  assets in three forms, not three.
\<close>

theorem two_logical_assets_copied:
  "copied_names (trace (snd (copyAssets linux_world (initial_config linux_world)
       (init_state linux_world))))
     = [''constants.js'', ''constants.js.map'', ''constants.d.ts'',
        ''utils.js'', ''utils.js.map'', ''utils.d.ts'']
   \<and> logical_assets (copied_names (trace (snd (copyAssets linux_world (initial_config linux_world)
       (init_state linux_world))))) = [''constants'', ''utils'']
   \<and> length (logical_assets (copied_names (trace (snd (copyAssets linux_world
       (initial_config linux_world) (init_state linux_world)))))) \<noteq> 3"
proof -
  have "first_failure linux_world (initial_config linux_world) companion_files = None"
    by (simp add: companion_files_list copy_failure_def linux_world_def)
  then have "trace (snd (copyAssets linux_world (initial_config linux_world) (init_state linux_world)))
      = map (copy_action linux_world (initial_config linux_world)) companion_files
        @ [WriteFileSync (path_join linux_world [wasmOut (initial_config linux_world), ''package.json''])
             packageJson]"
    by (simp add: copyAssets_unfold init_state_def)
  moreover have "map (copy_action linux_world (initial_config linux_world)) companion_files
      = map (\<lambda>f. CopyFileSync (''/repo/lib/llhttp/'' @ f) (''/repo/build/wasm/'' @ f)) companion_files"
    by (rule map_cong) (simp_all add: linux_copy_action)
  ultimately have "copied_names (trace (snd (copyAssets linux_world (initial_config linux_world)
       (init_state linux_world))))
     = [''constants.js'', ''constants.js.map'', ''constants.d.ts'',
        ''utils.js'', ''utils.js.map'', ''utils.d.ts'']"
    by (simp add: companion_files_list)
  then show ?thesis
    by (simp add: logical_assets_def)
qed

section \<open>The run without a mode argument\<close>

text \<open>
  Claim C10, as the code has it. Without a mode argument the run is the local pipeline on
  the configuration as constructed; it executes no container command; the platform stays
  as constructed, which is the value of the override variable when the variable is set
  (the empty string if that is its value) and the empty string when it is unset; and the
  pipeline does the same whatever the platform field holds.
\<close>

theorem local_path_no_container:
  assumes "argv2 w = None"
  shows "filter is_container_command (exec_commands (run_trace w)) = []
    \<and> final_config w = initial_config w
    \<and> platform (final_config w) = (case env_WASM_PLATFORM w of None \<Rightarrow> [] | Some p \<Rightarrow> p)
    \<and> main w = default_mode w (initial_config w) (init_state w)
    \<and> default_mode w ((initial_config w)\<lparr>platform := p\<rparr>) = default_mode w (initial_config w)"
proof -
  have m: "main w = default_mode w (initial_config w) (init_state w)"
    using assms by (rule main_without_argument)
  have "final_config w = initial_config w"
    using dispatch_config [of w "init_state w"] assms
    by (simp add: final_config_def main_unfold truthy_def init_state_def)
  moreover have "filter is_container_command (exec_commands (run_trace w)) = []"
    by (simp add: run_trace_def m default_mode_no_container init_state_def)
  ultimately show ?thesis
    using m by (simp add: default_mode_ignores_platform initial_config_fields)
qed

theorem local_path_no_container_witness:
  "argv2 linux_world = None
   \<and> filter is_container_command (exec_commands (run_trace linux_world)) = []
   \<and> platform (final_config linux_world) = []"
proof -
  have a: "argv2 linux_world = None"
    by (simp add: example_worlds)
  have e: "env_WASM_PLATFORM linux_world = None"
    by (simp add: example_worlds)
  show ?thesis
    using local_path_no_container [OF a, of "[]"] a by (simp add: e initial_config_fields)
qed

text \<open>
  The claim as stated fails when the override variable is set to a platform: the platform
  field is then not the empty string on the local path.
\<close>

theorem local_path_keeps_override:
  "argv2 override_world = None
   \<and> platform (final_config override_world) = ''linux/amd64''
   \<and> platform (final_config override_world) \<noteq> []"
proof -
  have a: "argv2 override_world = None"
    and p: "platform (initial_config override_world) = ''linux/amd64''"
    by (simp_all add: initial_config_fields example_worlds)
  show ?thesis
    by (simp add: final_config_resolved resolved_config_unfold a p)
qed

end
